theory Spec2Isabelle
  imports Main
begin

section \<open>Python values, exceptions and the environment\<close>

text \<open>
  The tools of \<^verbatim>\<open>agent_logic.py\<close> work on the values that \<^verbatim>\<open>json.loads\<close> and
  \<^verbatim>\<open>response.json()\<close> produce. A decoded value is \<^verbatim>\<open>None\<close>, a bool, an int, a float,
  a str, a list or a dict with string keys. A float is kept as its \<^verbatim>\<open>repr\<close> text, which
  determines it; a dict is an association list in insertion order, read with \<open>map_of\<close>.
  Strings are byte lists holding UTF-8; a lone surrogate, which a decoded string may hold
  (\<^verbatim>\<open>json.loads\<close> accepts the escape \<^verbatim>\<open>\ud800\<close>), is the three bytes that its code point
  would be encoded to.
\<close>

datatype json =
    JNull
  | JBool bool
  | JInt int
  | JFloat string
  | JStr string
  | JArr "json list"
  | JObj "(string \<times> json) list"

text \<open>
  Exceptions carry their class and the text \<^verbatim>\<open>str(e)\<close>. The classes prefixed \<open>Req\<close> are
  those of \<^verbatim>\<open>requests.exceptions\<close>, all subclasses of \<^verbatim>\<open>RequestException\<close>.
\<close>

datatype exc_class =
    PyJSONDecodeError
  | PyKeyError
  | PyTypeError
  | PyAttributeError
  | PyIndexError
  | PyValueError
  | PyImportError
  | PyUnicodeEncodeError
  | PyOtherException
  | ReqRequestException
  | ReqHTTPError
  | ReqConnectionError
  | ReqTimeout
  | ReqJSONDecodeError

datatype exc = Exc exc_class string

fun str_exc :: "exc \<Rightarrow> string" where
  "str_exc (Exc c m) = m"

fun is_RequestException :: "exc \<Rightarrow> bool" where
  "is_RequestException (Exc c m) =
     (c = ReqRequestException \<or> c = ReqHTTPError \<or> c = ReqConnectionError
      \<or> c = ReqTimeout \<or> c = ReqJSONDecodeError)"

record http_request =
  url :: string
  headers :: "(string \<times> string option) list"
  params :: "(string \<times> json) list"

record http_response =
  status_code :: nat
  reason :: string
  response_url :: string
  response_body :: "string + json"

record date =
  year :: nat
  month :: nat
  day :: nat

text \<open>
  What the code reaches outside itself for is a field of the environment: the JSON decoder,
  the interpreter's \<^verbatim>\<open>repr\<close> of lists and dicts, the process environment, standard output
  (which accepts a line or raises, as it does for text that its encoding cannot encode), the
  HTTP client,
  the system clock, the Google search wrapper (its import gives the class, the class called
  with the two credentials gives an object, and the object's \<^verbatim>\<open>run\<close> gives the text; each may
  raise) and the agent executor built at import time.
\<close>

record env =
  json_decoder :: "string \<Rightarrow> string + json"
  py_repr :: "json \<Rightarrow> string"
  getenv :: "string \<Rightarrow> string option"
  stdout_write :: "string \<Rightarrow> exc + unit"
  requests_get :: "http_request \<Rightarrow> exc + http_response"
  today :: date
  import_GoogleSearchAPIWrapper ::
    "exc + (string option \<Rightarrow> string option \<Rightarrow> exc + (string \<Rightarrow> exc + string))"
  agent_invoke :: "string \<Rightarrow> exc + (string \<times> string) list"

text \<open>
  \<^verbatim>\<open>json.loads\<close> returns the decoded value or raises \<^verbatim>\<open>JSONDecodeError\<close> with the
  decoder's message. \<^verbatim>\<open>response.json()\<close> does the same for the body of a response, with
  the HTTP client's own \<^verbatim>\<open>JSONDecodeError\<close>, which is a \<^verbatim>\<open>RequestException\<close>.
\<close>

definition json_loads :: "env \<Rightarrow> string \<Rightarrow> exc + json" where
  "json_loads E s =
     (case json_decoder E s of Inl m \<Rightarrow> Inl (Exc PyJSONDecodeError m) | Inr v \<Rightarrow> Inr v)"

definition response_json :: "http_response \<Rightarrow> exc + json" where
  "response_json r =
     (case response_body r of Inl m \<Rightarrow> Inl (Exc ReqJSONDecodeError m) | Inr v \<Rightarrow> Inr v)"

text \<open>
  The observable effects of a call, in order: a line that standard output accepted, a
  request handed to the HTTP client, an invocation of the agent.
\<close>

datatype event =
    Print string
  | HttpGet http_request
  | AgentInvoke string

type_synonym outcome = "event list \<times> (exc + string)"

subsection \<open>Python operations on decoded values\<close>

definition digit_char :: "nat \<Rightarrow> char" where
  "digit_char n = ''0123456789'' ! n"

fun str_nat :: "nat \<Rightarrow> string" where
  "str_nat n = (if n < 10 then [digit_char n] else str_nat (n div 10) @ [digit_char (n mod 10)])"

definition str_int :: "int \<Rightarrow> string" where
  "str_int i = (if i < 0 then CHR ''-'' # str_nat (nat (- i)) else str_nat (nat i))"

text \<open>\<^verbatim>\<open>str(v)\<close>, as an f-string placeholder renders a value.\<close>

fun py_str :: "env \<Rightarrow> json \<Rightarrow> string" where
  "py_str E (JStr s) = s"
| "py_str E JNull = ''None''"
| "py_str E (JBool b) = (if b then ''True'' else ''False'')"
| "py_str E (JInt i) = str_int i"
| "py_str E (JFloat r) = r"
| "py_str E (JArr xs) = py_repr E (JArr xs)"
| "py_str E (JObj kvs) = py_repr E (JObj kvs)"

fun type_name :: "json \<Rightarrow> string" where
  "type_name JNull = ''NoneType''"
| "type_name (JBool b) = ''bool''"
| "type_name (JInt i) = ''int''"
| "type_name (JFloat r) = ''float''"
| "type_name (JStr s) = ''str''"
| "type_name (JArr xs) = ''list''"
| "type_name (JObj kvs) = ''dict''"

text \<open>Truth value of \<^verbatim>\<open>not v\<close>'s operand.\<close>

fun truthy :: "json \<Rightarrow> bool" where
  "truthy JNull = False"
| "truthy (JBool b) = b"
| "truthy (JInt i) = (i \<noteq> 0)"
| "truthy (JFloat r) = (r \<noteq> ''0.0'' \<and> r \<noteq> ''-0.0'')"
| "truthy (JStr s) = (s \<noteq> [])"
| "truthy (JArr xs) = (xs \<noteq> [])"
| "truthy (JObj kvs) = (kvs \<noteq> [])"

definition quoted :: "string \<Rightarrow> string" where
  "quoted s = [CHR 0x27] @ s @ [CHR 0x27]"

definition not_subscriptable :: "json \<Rightarrow> exc" where
  "not_subscriptable v = Exc PyTypeError (quoted (type_name v) @ '' object is not subscriptable'')"

text \<open>\<^verbatim>\<open>v[k]\<close> with a string key \<open>k\<close>.\<close>

fun py_getitem :: "json \<Rightarrow> string \<Rightarrow> exc + json" where
  "py_getitem (JObj kvs) k =
     (case map_of kvs k of None \<Rightarrow> Inl (Exc PyKeyError (quoted k)) | Some v \<Rightarrow> Inr v)"
| "py_getitem (JArr xs) k =
     Inl (Exc PyTypeError ''list indices must be integers or slices, not str'')"
| "py_getitem (JStr s) k =
     Inl (Exc PyTypeError (''string indices must be integers, not '' @ quoted ''str''))"
| "py_getitem v k = Inl (not_subscriptable v)"

text \<open>\<^verbatim>\<open>v.get(k, d)\<close>: only a dict has the method.\<close>

fun py_get :: "json \<Rightarrow> string \<Rightarrow> json \<Rightarrow> exc + json" where
  "py_get (JObj kvs) k d = Inr (case map_of kvs k of None \<Rightarrow> d | Some v \<Rightarrow> v)"
| "py_get v k d =
     Inl (Exc PyAttributeError
       (quoted (type_name v) @ '' object has no attribute '' @ quoted ''get''))"

subsection \<open>Sequencing with exceptions and effects\<close>

text \<open>
  A statement that raises ends the \<^verbatim>\<open>try\<close> block with that exception; the effects that
  have already happened stay.
\<close>

fun bind_exc :: "exc + 'a \<Rightarrow> ('a \<Rightarrow> exc + 'b) \<Rightarrow> exc + 'b" where
  "bind_exc (Inl e) f = Inl e"
| "bind_exc (Inr v) f = f v"

fun bind_out :: "exc + 'a \<Rightarrow> ('a \<Rightarrow> event list \<times> (exc + 'b)) \<Rightarrow> event list \<times> (exc + 'b)" where
  "bind_out (Inl e) f = ([], Inl e)"
| "bind_out (Inr v) f = f v"

definition emit :: "event list \<Rightarrow> event list \<times> 'a \<Rightarrow> event list \<times> 'a" where
  "emit evs r = (evs @ fst r, snd r)"

text \<open>\<^verbatim>\<open>print(s)\<close>: the line appears, or the write raises and nothing of the block follows.\<close>

definition py_print ::
  "env \<Rightarrow> string \<Rightarrow> (unit \<Rightarrow> event list \<times> (exc + 'b)) \<Rightarrow> event list \<times> (exc + 'b)" where
  "py_print E s f =
     (case stdout_write E s of Inl e \<Rightarrow> ([], Inl e) | Inr u \<Rightarrow> emit [Print s] (f u))"

section \<open>The hotel tool\<close>

definition rupee :: string where
  "rupee = [CHR 0xE2, CHR 0x82, CHR 0xB9]"

definition hotel_offers :: string where
  "hotel_offers =
     '': 1. The Grand Hotel ('' @ rupee @ ''8000/night, 4.5 stars), 2. City Inn ('' @ rupee
     @ ''4500/night, 4.0 stars), 3. Budget Stay ('' @ rupee @ ''2500/night, 3.5 stars).''"

definition hotel_error :: "exc \<Rightarrow> string" where
  "hotel_error e =
     ''Error processing hotel search: '' @ str_exc e
     @ ''. Please ensure the input is a valid JSON with 'destination', 'check_in_date', and 'check_out_date' keys.''"

text \<open>
  The \<^verbatim>\<open>try\<close> block of \<^verbatim>\<open>search_hotels\<close>, the \<^verbatim>\<open>print\<close> included. The three keyword
  parameters are overwritten before they are read.
\<close>

definition hotels_progress_line :: "env \<Rightarrow> json \<Rightarrow> json \<Rightarrow> json \<Rightarrow> string" where
  "hotels_progress_line E destination check_in_date check_out_date =
     ''--- Searching hotels in '' @ py_str E destination @ '' from ''
     @ py_str E check_in_date @ '' to '' @ py_str E check_out_date @ '' ---''"

definition search_hotels_try :: "env \<Rightarrow> string \<Rightarrow> string \<Rightarrow> string \<Rightarrow> string \<Rightarrow> outcome" where
  "search_hotels_try E origin destination check_in_date check_out_date =
     bind_out (json_loads E origin) (\<lambda>input_dict.
     bind_out (py_getitem input_dict ''destination'') (\<lambda>destination'.
     bind_out (py_getitem input_dict ''check_in_date'') (\<lambda>check_in_date'.
     bind_out (py_getitem input_dict ''check_out_date'') (\<lambda>check_out_date'.
     py_print E (hotels_progress_line E destination' check_in_date' check_out_date') (\<lambda>_.
       ([], Inr (''Found 3 hotels in '' @ py_str E destination' @ hotel_offers)))))))"

text \<open>\<^verbatim>\<open>except Exception as e\<close> turns whatever the block raised into the returned text.\<close>

definition search_hotels :: "env \<Rightarrow> string \<Rightarrow> string \<Rightarrow> string \<Rightarrow> string \<Rightarrow> outcome" where
  "search_hotels E origin destination check_in_date check_out_date =
     (case search_hotels_try E origin destination check_in_date check_out_date of
        (evs, Inl e) \<Rightarrow> (evs, Inr (hotel_error e))
      | (evs, Inr s) \<Rightarrow> (evs, Inr s))"

section \<open>The flight tool\<close>

subsection \<open>Indexing, slicing and iterating\<close>

text \<open>A Python string is a sequence of code points; in UTF-8 each is a lead byte and its continuation bytes.\<close>

definition is_cont :: "char \<Rightarrow> bool" where
  "is_cont c = ((of_char c :: nat) div 64 = 2)"

function codepoints :: "string \<Rightarrow> string list" where
  "codepoints [] = []"
| "codepoints (c # cs) = (c # takeWhile is_cont cs) # codepoints (dropWhile is_cont cs)"
  by pat_completeness auto
termination
  by (relation "measure length") (auto simp: length_dropWhile_le less_Suc_eq_le)

text \<open>\<^verbatim>\<open>v[0]\<close>.\<close>

fun py_index0 :: "json \<Rightarrow> exc + json" where
  "py_index0 (JArr xs) =
     (case xs of [] \<Rightarrow> Inl (Exc PyIndexError ''list index out of range'') | x # _ \<Rightarrow> Inr x)"
| "py_index0 (JStr s) =
     (case codepoints s of [] \<Rightarrow> Inl (Exc PyIndexError ''string index out of range'')
      | c # _ \<Rightarrow> Inr (JStr c))"
| "py_index0 (JObj kvs) = Inl (Exc PyKeyError ''0'')"
| "py_index0 v = Inl (not_subscriptable v)"

text \<open>\<^verbatim>\<open>v[:3]\<close>. A dict rejects the slice as a key.\<close>

fun py_slice3 :: "json \<Rightarrow> exc + json" where
  "py_slice3 (JArr xs) = Inr (JArr (take 3 xs))"
| "py_slice3 (JStr s) = Inr (JStr (concat (take 3 (codepoints s))))"
| "py_slice3 (JObj kvs) = Inl (Exc PyTypeError (''unhashable type: '' @ quoted ''slice''))"
| "py_slice3 v = Inl (not_subscriptable v)"

text \<open>The items a \<^verbatim>\<open>for\<close> loop over \<open>v\<close> visits.\<close>

fun py_iter :: "json \<Rightarrow> exc + json list" where
  "py_iter (JArr xs) = Inr xs"
| "py_iter (JStr s) = Inr (map JStr (codepoints s))"
| "py_iter (JObj kvs) = Inr (map (\<lambda>kv. JStr (fst kv)) kvs)"
| "py_iter v = Inl (Exc PyTypeError (quoted (type_name v) @ '' object is not iterable''))"

fun join :: "string \<Rightarrow> string list \<Rightarrow> string" where
  "join sep [] = []"
| "join sep [x] = x"
| "join sep (x # y # ys) = x @ sep @ join sep (y # ys)"

subsection \<open>The request\<close>

definition api_url :: string where
  "api_url = ''https://google-flights2.p.rapidapi.com''"

definition querystring :: "json \<Rightarrow> (string \<times> json) list" where
  "querystring date_val =
     [(''departure_airport_code'', JStr ''BOM''),
      (''arrival_airport_code'', JStr ''GOI''),
      (''date'', date_val),
      (''currency'', JStr ''INR'')]"

definition flight_headers :: "env \<Rightarrow> (string \<times> string option) list" where
  "flight_headers E =
     [(''X-RapidAPI-Key'', getenv E ''RAPIDAPI_KEY''),
      (''X-RapidAPI-Host'', Some ''google-flights2.p.rapidapi.com'')]"

definition flight_request :: "env \<Rightarrow> json \<Rightarrow> http_request" where
  "flight_request E date_val =
     \<lparr> url = api_url, headers = flight_headers E, params = querystring date_val \<rparr>"

text \<open>\<^verbatim>\<open>response.raise_for_status()\<close> of the HTTP client: a 4xx or 5xx status raises \<^verbatim>\<open>HTTPError\<close>.\<close>

definition raise_for_status :: "http_response \<Rightarrow> exc + unit" where
  "raise_for_status r =
     (if 400 \<le> status_code r \<and> status_code r < 500 then
        Inl (Exc ReqHTTPError (str_nat (status_code r) @ '' Client Error: '' @ reason r
                               @ '' for url: '' @ response_url r))
      else if 500 \<le> status_code r \<and> status_code r < 600 then
        Inl (Exc ReqHTTPError (str_nat (status_code r) @ '' Server Error: '' @ reason r
                               @ '' for url: '' @ response_url r))
      else Inr ())"

subsection \<open>Reading the response\<close>

text \<open>
  The guard \<^verbatim>\<open>not data or not data.get("data") or not data["data"].get("topFlights")\<close>,
  evaluated left to right and stopping at the first true disjunct.
\<close>

definition no_top_flights :: "json \<Rightarrow> exc + bool" where
  "no_top_flights data =
     (if \<not> truthy data then Inr True
      else bind_exc (py_get data ''data'' JNull) (\<lambda>d.
        if \<not> truthy d then Inr True
        else bind_exc (py_getitem data ''data'') (\<lambda>d'.
             bind_exc (py_get d' ''topFlights'' JNull) (\<lambda>tf. Inr (\<not> truthy tf)))))"

text \<open>One line of the list; the four placeholders are evaluated in order.\<close>

definition flight_line :: "env \<Rightarrow> json \<Rightarrow> exc + string" where
  "flight_line E flight =
     bind_exc (py_get flight ''flights'' (JArr [JObj []])) (\<lambda>fs.
     bind_exc (py_index0 fs) (\<lambda>f0.
     bind_exc (py_get f0 ''airline'' (JStr ''N/A'')) (\<lambda>airline.
     bind_exc (py_get flight ''price'' (JStr ''N/A'')) (\<lambda>price.
     bind_exc (py_get flight ''duration'' (JObj [])) (\<lambda>duration.
     bind_exc (py_get duration ''text'' (JStr ''N/A'')) (\<lambda>text.
     bind_exc (py_get flight ''stops'' (JStr ''N/A'')) (\<lambda>stops.
       Inr (''- Airline: '' @ py_str E airline @ '', Price: $'' @ py_str E price
            @ '', Duration: '' @ py_str E text @ '', Stops: '' @ py_str E stops))))))))"

text \<open>The loop that appends one line per flight to \<^verbatim>\<open>formatted_flights\<close>.\<close>

fun format_loop :: "env \<Rightarrow> string list \<Rightarrow> json list \<Rightarrow> exc + string list" where
  "format_loop E formatted_flights [] = Inr formatted_flights"
| "format_loop E formatted_flights (flight # rest) =
     bind_exc (flight_line E flight) (\<lambda>l. format_loop E (formatted_flights @ [l]) rest)"

definition no_flights_found :: "env \<Rightarrow> json \<Rightarrow> json \<Rightarrow> json \<Rightarrow> string" where
  "no_flights_found E origin_city destination_city date_val =
     ''No flights found from '' @ py_str E origin_city @ '' to '' @ py_str E destination_city
     @ '' on '' @ py_str E date_val @ ''.''"

definition could_not_parse :: "env \<Rightarrow> json \<Rightarrow> json \<Rightarrow> string" where
  "could_not_parse E origin_city destination_city =
     ''Could not parse flight information from '' @ py_str E origin_city @ '' to ''
     @ py_str E destination_city @ ''.''"

definition flights_header :: string where
  "flights_header = ''Here are the top flight options:'' @ [CHR 0x0A]"

definition read_flights :: "env \<Rightarrow> json \<Rightarrow> json \<Rightarrow> json \<Rightarrow> json \<Rightarrow> exc + string" where
  "read_flights E origin_city destination_city date_val data =
     bind_exc (no_top_flights data) (\<lambda>none.
       if none then Inr (no_flights_found E origin_city destination_city date_val)
       else bind_exc (py_getitem data ''data'') (\<lambda>d.
            bind_exc (py_getitem d ''topFlights'') (\<lambda>tf.
            bind_exc (py_slice3 tf) (\<lambda>top3.
            bind_exc (py_iter top3) (\<lambda>flights.
            bind_exc (format_loop E [] flights) (\<lambda>formatted_flights.
              if formatted_flights = [] then Inr (could_not_parse E origin_city destination_city)
              else Inr (flights_header @ join [CHR 0x0A] formatted_flights)))))))"

subsection \<open>The tool\<close>

definition flights_progress_line :: "env \<Rightarrow> json \<Rightarrow> json \<Rightarrow> json \<Rightarrow> string" where
  "flights_progress_line E origin_city destination_city date_val =
     ''--- Searching REAL flights from '' @ py_str E origin_city @ '' to ''
     @ py_str E destination_city @ '' for '' @ py_str E date_val @ '' ---''"

definition search_flights_try :: "env \<Rightarrow> string \<Rightarrow> string \<Rightarrow> string \<Rightarrow> outcome" where
  "search_flights_try E origin destination departure_date =
     bind_out (json_loads E origin) (\<lambda>input_dict.
     bind_out (py_getitem input_dict ''origin'') (\<lambda>origin_city.
     bind_out (py_getitem input_dict ''destination'') (\<lambda>destination_city.
     bind_out (py_getitem input_dict ''departure_date'') (\<lambda>date_val.
     py_print E (flights_progress_line E origin_city destination_city date_val) (\<lambda>_.
       emit [HttpGet (flight_request E date_val)]
         (bind_out (requests_get E (flight_request E date_val)) (\<lambda>response.
          bind_out (raise_for_status response) (\<lambda>_.
          bind_out (response_json response) (\<lambda>data.
            ([], read_flights E origin_city destination_city date_val data))))))))))"

definition api_request_failed :: "exc \<Rightarrow> string" where
  "api_request_failed e = ''API request failed: '' @ str_exc e"

definition flight_error :: "exc \<Rightarrow> string" where
  "flight_error e =
     ''An error occurred while searching for flights: '' @ str_exc e
     @ ''. Please ensure the input is a valid JSON and the date is in YYYY-MM-DD format.''"

text \<open>The two handlers, tried in order.\<close>

definition search_flights :: "env \<Rightarrow> string \<Rightarrow> string \<Rightarrow> string \<Rightarrow> outcome" where
  "search_flights E origin destination departure_date =
     (case search_flights_try E origin destination departure_date of
        (evs, Inl e) \<Rightarrow>
          (evs, Inr (if is_RequestException e then api_request_failed e else flight_error e))
      | (evs, Inr s) \<Rightarrow> (evs, Inr s))"

section \<open>The search and date tools\<close>

definition web_search :: "env \<Rightarrow> string \<Rightarrow> outcome" where
  "web_search E query =
     bind_out (import_GoogleSearchAPIWrapper E) (\<lambda>wrapper.
     py_print E (''--- Performing Google Search for: '' @ query @ '' ---'') (\<lambda>_.
     bind_out (wrapper (getenv E ''GOOGLE_API_KEY'') (getenv E ''GOOGLE_CSE_ID'')) (\<lambda>search.
       ([], search query))))"

subsection \<open>The calendar behind \<^verbatim>\<open>strftime\<close>\<close>

text \<open>
  \<^verbatim>\<open>date.strftime\<close> takes the weekday from the date's ordinal, as the standard library
  computes it (Monday is 0), and the names of the C locale.
\<close>

definition is_leap :: "nat \<Rightarrow> bool" where
  "is_leap y = (y mod 4 = 0 \<and> (y mod 100 \<noteq> 0 \<or> y mod 400 = 0))"

definition days_before_year :: "nat \<Rightarrow> nat" where
  "days_before_year y = (y - 1) * 365 + (y - 1) div 4 - (y - 1) div 100 + (y - 1) div 400"


definition days_before_month :: "nat \<Rightarrow> nat \<Rightarrow> nat" where
  "days_before_month y m =
     [0, 31, 59, 90, 120, 151, 181, 212, 243, 273, 304, 334] ! (m - 1)
     + (if 2 < m \<and> is_leap y then 1 else 0)"

definition toordinal :: "date \<Rightarrow> nat" where
  "toordinal d = days_before_year (year d) + days_before_month (year d) (month d) + day d"

definition weekday :: "date \<Rightarrow> nat" where
  "weekday d = (toordinal d + 6) mod 7"


definition weekday_names :: "string list" where
  "weekday_names =
     [''Monday'', ''Tuesday'', ''Wednesday'', ''Thursday'', ''Friday'', ''Saturday'', ''Sunday'']"

definition month_names :: "string list" where
  "month_names =
     [''January'', ''February'', ''March'', ''April'', ''May'', ''June'', ''July'', ''August'',
      ''September'', ''October'', ''November'', ''December'']"

definition pad2 :: "nat \<Rightarrow> string" where
  "pad2 n = (if n < 10 then CHR ''0'' # str_nat n else str_nat n)"

text \<open>\<^verbatim>\<open>d.strftime('%A, %B %d, %Y')\<close>.\<close>

definition strftime_A_B_d_Y :: "date \<Rightarrow> string" where
  "strftime_A_B_d_Y d =
     weekday_names ! weekday d @ '', '' @ month_names ! (month d - 1) @ '' '' @ pad2 (day d)
     @ '', '' @ str_nat (year d)"

definition get_current_date :: "env \<Rightarrow> string \<Rightarrow> outcome" where
  "get_current_date E query = ([], Inr (''Today's date is '' @ strftime_A_B_d_Y (today E) @ ''.''))"



section \<open>The registry\<close>

text \<open>
  The agent hands a tool one string, which becomes its first positional parameter; the
  other parameters keep their defaults.
\<close>

record tool =
  tool_name :: string
  tool_invoke :: "env \<Rightarrow> string \<Rightarrow> outcome"

definition tools :: "tool list" where
  "tools =
     [\<lparr> tool_name = ''web_search'', tool_invoke = web_search \<rparr>,
      \<lparr> tool_name = ''search_hotels'', tool_invoke = (\<lambda>E s. search_hotels E s [] [] []) \<rparr>,
      \<lparr> tool_name = ''search_flights'', tool_invoke = (\<lambda>E s. search_flights E s [] []) \<rparr>,
      \<lparr> tool_name = ''get_current_date'', tool_invoke = get_current_date \<rparr>]"

section \<open>The request handler\<close>

record UserRequest =
  origin :: string
  destination :: string
  start_date :: string
  duration_days :: int
  "notes" :: "string option"

definition nl :: string where
  "nl = [CHR 0x0A]"

definition master_prompt :: "UserRequest \<Rightarrow> string" where
  \<open>master_prompt request =
     nl @ ''    You are an expert travel planner. Your task is to create a detailed itinerary based on the following information:''
     @ nl @ ''    - Origin: '' @ origin request
     @ nl @ ''    - Destination: '' @ destination request
     @ nl @ ''    - Start Date: '' @ start_date request
     @ nl @ ''    - Trip Duration: '' @ str_int (duration_days request) @ '' days''
     @ nl
     @ nl @ ''    User's additional notes: ''
          @ (case notes request of None \<Rightarrow> ''None'' | Some n \<Rightarrow> if n \<noteq> [] then n else ''None'')
     @ nl
     @ nl @ ''    Please perform the following steps:''
     @ nl @ ''    1. Search for round-trip flights for the given origin, destination, and start date.''
     @ nl @ ''    2. Based on the start date and duration, determine the check-in and check-out dates.''
     @ nl @ ''    3. Search for 3-4 highly-rated hotel options for these dates.''
     @ nl @ ''    4. Search for the top 3-5 points of interest or activities at the destination, keeping the user's notes in mind.''
     @ nl @ ''    5. Synthesize all this information into a complete, day-by-day itinerary.''
     @ nl @ ''    IMPORTANT: Your final response MUST start with the words "Final Answer:" and should contain ONLY the detailed itinerary that follows. Do not take any more actions after this.''
     @ nl @ ''    ''
     @ nl @ ''    Your final answer must be only the detailed itinerary. It should include daily activities and a summary of the flight and hotel options you found.''
     @ nl @ ''    ''\<close>


text \<open>The returned dict has one key; its value is a string.\<close>

datatype payload = Plan string | Error string

definition response_getitem :: "(string \<times> string) list \<Rightarrow> string \<Rightarrow> exc + string" where
  "response_getitem response k =
     (case map_of response k of None \<Rightarrow> Inl (Exc PyKeyError (quoted k)) | Some v \<Rightarrow> Inr v)"

definition plan_trip_try :: "env \<Rightarrow> UserRequest \<Rightarrow> event list \<times> (exc + payload)" where
  "plan_trip_try E request =
     emit [AgentInvoke (master_prompt request)]
       (bind_out (agent_invoke E (master_prompt request)) (\<lambda>response.
        bind_out (response_getitem response ''output'') (\<lambda>out.
          ([], Inr (Plan out)))))"

definition plan_trip :: "env \<Rightarrow> UserRequest \<Rightarrow> event list \<times> (exc + payload)" where
  "plan_trip E request =
     (case plan_trip_try E request of
        (evs, Inl e) \<Rightarrow> (evs, Inr (Error (''An error occurred: '' @ str_exc e)))
      | (evs, Inr p) \<Rightarrow> (evs, Inr p))"

text \<open>
  The web framework in front of the handler, which \<^verbatim>\<open>@app.post("/plan-trip")\<close> and the
  parameter type \<^verbatim>\<open>UserRequest\<close> put there. It validates the body of a POST against
  \<^verbatim>\<open>UserRequest\<close>: a body that does not validate is answered with status 422 and the
  errors, and the handler is not called. It renders the dict the handler returns as JSON and
  answers with status 200; an exception that leaves the handler, or that rendering raises
  (as for text that cannot be encoded), is answered with status 500. Validation and
  rendering are the framework's and are parameters here.
\<close>

record web_framework =
  validate_body :: "string \<Rightarrow> string + UserRequest"
  render_error :: "payload \<Rightarrow> exc option"

datatype reply_content = Payload payload | Validation_Errors string | Internal_Server_Error

record http_reply =
  reply_status :: nat
  reply_body :: reply_content

definition post_plan_trip :: "web_framework \<Rightarrow> env \<Rightarrow> string \<Rightarrow> event list \<times> http_reply" where
  "post_plan_trip F E body =
     (case validate_body F body of
        Inl detail \<Rightarrow> ([], \<lparr> reply_status = 422, reply_body = Validation_Errors detail \<rparr>)
      | Inr request \<Rightarrow>
          (case plan_trip E request of
             (evs, Inl e) \<Rightarrow> (evs, \<lparr> reply_status = 500, reply_body = Internal_Server_Error \<rparr>)
           | (evs, Inr p) \<Rightarrow>
               (case render_error F p of
                  Some e \<Rightarrow> (evs, \<lparr> reply_status = 500, reply_body = Internal_Server_Error \<rparr>)
                | None \<Rightarrow> (evs, \<lparr> reply_status = 200, reply_body = Payload p \<rparr>))))"

section \<open>The reasoning loop\<close>

text \<open>
  Modelled from the spec: the reasoning loop that \<^verbatim>\<open>create_trip_planner_agent\<close> obtains
  from the agent framework (\<^verbatim>\<open>AgentExecutor\<close> with its default settings); the repository
  only constructs it. The definitions follow the contract and the six steps of the spec's
  section 4.2. The language model, the decoder of its completions, the iteration cap and the
  wording of the two error observations are parameters.
\<close>

datatype shape = Action string string | Final_Answer string

datatype loop_error = Execution_Limit | Parse_Error

record trace_step =
  action :: string
  action_input :: string
  observation :: string

record reasoner =
  complete :: "string \<Rightarrow> trace_step list \<Rightarrow> string"
  decode :: "string \<Rightarrow> shape option"
  iteration_cap :: nat
  unknown_tool_text :: "string \<Rightarrow> string"
  fault_text :: "exc \<Rightarrow> string"

text \<open>
  Step 4: an unknown name gives an error observation; a known tool is invoked and a raised
  fault becomes an error-text observation.
\<close>

definition observe :: "reasoner \<Rightarrow> env \<Rightarrow> tool list \<Rightarrow> string \<Rightarrow> string \<Rightarrow> string" where
  "observe R E registry a i =
     (case find (\<lambda>t. tool_name t = a) registry of
        None \<Rightarrow> unknown_tool_text R a
      | Some t \<Rightarrow> (case snd (tool_invoke t E i) of Inl e \<Rightarrow> fault_text R e | Inr s \<Rightarrow> s))"

text \<open>Steps 2 to 6, with the number of iterations still allowed as first argument.\<close>

fun run_loop ::
  "nat \<Rightarrow> reasoner \<Rightarrow> env \<Rightarrow> tool list \<Rightarrow> string \<Rightarrow> trace_step list
   \<Rightarrow> trace_step list \<times> (loop_error + string)" where
  "run_loop 0 R E registry task transcript = (transcript, Inl Execution_Limit)"
| "run_loop (Suc n) R E registry task transcript =
     (case decode R (complete R task transcript) of
        None \<Rightarrow> (transcript, Inl Parse_Error)
      | Some (Final_Answer s) \<Rightarrow> (transcript, Inr s)
      | Some (Action a i) \<Rightarrow>
          run_loop n R E registry task
            (transcript @ [\<lparr> action = a, action_input = i,
                            observation = observe R E registry a i \<rparr>]))"

definition run :: "reasoner \<Rightarrow> env \<Rightarrow> string \<Rightarrow> trace_step list \<times> (loop_error + string)" where
  "run R E task = run_loop (iteration_cap R) R E tools task []"

section \<open>What the flight tool is expected to return\<close>


text \<open>
  A decoded body lacks \<^verbatim>\<open>data.topFlights\<close> when it is empty, or an object without a
  non-empty \<^verbatim>\<open>data\<close>, or an object whose \<^verbatim>\<open>data\<close> is an object without a non-empty
  \<^verbatim>\<open>topFlights\<close>.
\<close>

definition lacks_top_flights :: "json \<Rightarrow> bool" where
  "lacks_top_flights body =
     (\<not> truthy body \<or>
      (case body of
         JObj kvs \<Rightarrow>
           (case map_of kvs ''data'' of
              None \<Rightarrow> True
            | Some d \<Rightarrow>
                \<not> truthy d \<or>
                (case d of
                   JObj dkvs \<Rightarrow>
                     (case map_of dkvs ''topFlights'' of None \<Rightarrow> True | Some tf \<Rightarrow> \<not> truthy tf)
                 | _ \<Rightarrow> False))
       | _ \<Rightarrow> False))"

text \<open>
  The line the spec describes for one entry of \<^verbatim>\<open>topFlights\<close>: the airline of its first
  leg, its price, the text of its duration and its stops, each replaced by \<^verbatim>\<open>N/A\<close> when
  absent. It is meant for an entry that is an object whose \<^verbatim>\<open>flights\<close>, when present, is a
  list starting with an object, and whose \<^verbatim>\<open>duration\<close>, when present, is an object.
\<close>

definition field_or_NA :: "(string \<times> json) list \<Rightarrow> string \<Rightarrow> json" where
  "field_or_NA kvs k = (case map_of kvs k of None \<Rightarrow> JStr ''N/A'' | Some v \<Rightarrow> v)"

definition airline_of :: "(string \<times> json) list \<Rightarrow> json" where
  "airline_of kvs =
     (case map_of kvs ''flights'' of
        Some (JArr (JObj leg # legs)) \<Rightarrow> field_or_NA leg ''airline''
      | _ \<Rightarrow> JStr ''N/A'')"

definition duration_text_of :: "(string \<times> json) list \<Rightarrow> json" where
  "duration_text_of kvs =
     (case map_of kvs ''duration'' of
        Some (JObj dkvs) \<Rightarrow> field_or_NA dkvs ''text''
      | _ \<Rightarrow> JStr ''N/A'')"

definition well_formed_flight :: "json \<Rightarrow> bool" where
  "well_formed_flight flight =
     (case flight of
        JObj kvs \<Rightarrow>
          (case map_of kvs ''flights'' of
             None \<Rightarrow> True
           | Some (JArr (JObj leg # legs)) \<Rightarrow> True
           | Some _ \<Rightarrow> False)
          \<and> (case map_of kvs ''duration'' of
               None \<Rightarrow> True
             | Some (JObj dkvs) \<Rightarrow> True
             | Some _ \<Rightarrow> False)
      | _ \<Rightarrow> False)"

definition render_flight :: "env \<Rightarrow> json \<Rightarrow> string" where
  "render_flight E flight =
     (case flight of
        JObj kvs \<Rightarrow>
          ''- Airline: '' @ py_str E (airline_of kvs)
          @ '', Price: $'' @ py_str E (field_or_NA kvs ''price'')
          @ '', Duration: '' @ py_str E (duration_text_of kvs)
          @ '', Stops: '' @ py_str E (field_or_NA kvs ''stops'')
      | _ \<Rightarrow> [])"

section \<open>Malformed arguments\<close>




section \<open>A concrete environment\<close>

text \<open>
  One environment on which the definitions are run: a decoder that knows eight argument
  strings, a standard output that encodes to UTF-8 and so refuses a lone surrogate, a
  flights provider that answers with four flights, a search wrapper that wants its API key,
  and an agent that answers with a plan.
\<close>

text \<open>
  The first lone surrogate of a string: its position, counted in code points, and its code
  point. Its three bytes are \<open>0xED\<close>, a byte from \<open>0xA0\<close> on and one more.
\<close>

fun first_surrogate :: "nat \<Rightarrow> string \<Rightarrow> (nat \<times> nat) option" where
  "first_surrogate n (c # d # e # cs) =
     (if c = CHR 0xED \<and> 160 \<le> (of_char d :: nat)
      then Some (n, 53248 + (of_char d - 128) * 64 + (of_char e - 128))
      else first_surrogate (if of_char c div 64 = (2::nat) then n else n + 1) (d # e # cs))"
| "first_surrogate n cs = None"

definition has_surrogate :: "string \<Rightarrow> bool" where
  "has_surrogate s = (first_surrogate 0 s \<noteq> None)"

definition hex4 :: "nat \<Rightarrow> string" where
  "hex4 n =
     map (\<lambda>k. ''0123456789abcdef'' ! k)
       [n div 4096 mod 16, n div 256 mod 16, n div 16 mod 16, n mod 16]"

definition backslash :: string where
  "backslash = [CHR 0x5C]"

definition surrogates_not_allowed :: "nat \<Rightarrow> nat \<Rightarrow> exc" where
  "surrogates_not_allowed position code_point =
     Exc PyUnicodeEncodeError
       (quoted ''utf-8'' @ '' codec can't encode character ''
        @ quoted (backslash @ ''u'' @ hex4 code_point)
        @ '' in position '' @ str_nat position @ '': surrogates not allowed'')"

definition utf8_stdout :: "string \<Rightarrow> exc + unit" where
  "utf8_stdout s =
     (case first_surrogate 0 s of
        Some (position, code_point) \<Rightarrow> Inl (surrogates_not_allowed position code_point)
      | None \<Rightarrow> Inr ())"

definition hotel_arg :: string where
  \<open>hotel_arg = ''{"destination": "Goa", "check_in_date": "2025-10-15", "check_out_date": "2025-10-18"}''\<close>

definition hotel_arg_later :: string where
  \<open>hotel_arg_later = ''{"destination": "Goa", "check_in_date": "2025-12-01", "check_out_date": "2025-12-05"}''\<close>

definition hotel_arg_no_check_out :: string where
  \<open>hotel_arg_no_check_out = ''{"destination": "Goa", "check_in_date": "2025-10-15"}''\<close>

definition hotel_arg_no_dates :: string where
  \<open>hotel_arg_no_dates = ''{"destination": "Goa"}''\<close>

definition flight_arg :: string where
  \<open>flight_arg = ''{"origin": "Mumbai", "destination": "Goa", "departure_date": "2025-10-15"}''\<close>

definition flight_arg_delhi :: string where
  \<open>flight_arg_delhi = ''{"origin": "Delhi", "destination": "Pune", "departure_date": "2025-10-15"}''\<close>

definition hotel_arg_surrogate :: string where
  \<open>hotel_arg_surrogate =
     ''{"destination": "'' @ backslash @ ''ud800", "check_in_date": "2025-10-15", "check_out_date": "2025-10-18"}''\<close>

definition hotel_arg_surrogate_date :: string where
  \<open>hotel_arg_surrogate_date =
     ''{"destination": "Goa", "check_in_date": "'' @ backslash @ ''udfff", "check_out_date": "2025-10-18"}''\<close>

definition demo_decoder :: "string \<Rightarrow> string + json" where
  "demo_decoder s =
     (if s = hotel_arg then
        Inr (JObj [(''destination'', JStr ''Goa''), (''check_in_date'', JStr ''2025-10-15''),
                   (''check_out_date'', JStr ''2025-10-18'')])
      else if s = hotel_arg_later then
        Inr (JObj [(''destination'', JStr ''Goa''), (''check_in_date'', JStr ''2025-12-01''),
                   (''check_out_date'', JStr ''2025-12-05'')])
      else if s = hotel_arg_no_dates then
        Inr (JObj [(''destination'', JStr ''Goa'')])
      else if s = flight_arg then
        Inr (JObj [(''origin'', JStr ''Mumbai''), (''destination'', JStr ''Goa''),
                   (''departure_date'', JStr ''2025-10-15'')])
      else if s = flight_arg_delhi then
        Inr (JObj [(''origin'', JStr ''Delhi''), (''destination'', JStr ''Pune''),
                   (''departure_date'', JStr ''2025-10-15'')])
      else if s = hotel_arg_no_check_out then
        Inr (JObj [(''destination'', JStr ''Goa''), (''check_in_date'', JStr ''2025-10-15'')])
      else if s = hotel_arg_surrogate then
        Inr (JObj [(''destination'', JStr [CHR 0xED, CHR 0xA0, CHR 0x80]),
                   (''check_in_date'', JStr ''2025-10-15''),
                   (''check_out_date'', JStr ''2025-10-18'')])
      else if s = hotel_arg_surrogate_date then
        Inr (JObj [(''destination'', JStr ''Goa''),
                   (''check_in_date'', JStr [CHR 0xED, CHR 0xBF, CHR 0xBF]),
                   (''check_out_date'', JStr ''2025-10-18'')])
      else Inl ''Expecting value: line 1 column 1 (char 0)'')"

definition demo_flights :: "json list" where
  "demo_flights =
     [JObj [(''flights'', JArr [JObj [(''airline'', JStr ''IndiGo'')]]), (''price'', JInt 54),
            (''duration'', JObj [(''text'', JStr ''1 hr 15 min'')]), (''stops'', JInt 0)],
      JObj [(''flights'', JArr [JObj [(''airline'', JStr ''Air India'')]]), (''price'', JInt 61)],
      JObj [],
      JObj [(''flights'', JArr [JObj [(''airline'', JStr ''Akasa Air'')]]), (''price'', JInt 48)]]"

definition demo_response :: "json \<Rightarrow> http_response" where
  "demo_response body =
     \<lparr> status_code = 200, reason = ''OK'', response_url = api_url, response_body = Inr body \<rparr>"

definition demo_wrapper :: "string option \<Rightarrow> string option \<Rightarrow> exc + (string \<Rightarrow> exc + string)" where
  "demo_wrapper api_key cse_id =
     (case api_key of
        None \<Rightarrow> Inl (Exc PyValueError ''Did not find google_api_key'')
      | Some k \<Rightarrow> Inr (\<lambda>q. Inr ''No good Google Search Result was found''))"

definition demo_env :: env where
  "demo_env =
     \<lparr> json_decoder = demo_decoder,
       py_repr = (\<lambda>v. ''[...]''),
       getenv = (\<lambda>k. if k = ''RAPIDAPI_KEY'' then Some ''secret'' else None),
       stdout_write = utf8_stdout,
       requests_get = (\<lambda>r. Inr (demo_response
                        (JObj [(''data'', JObj [(''topFlights'', JArr demo_flights)])]))),
       today = \<lparr> year = 2026, month = 11, day = 4 \<rparr>,
       import_GoogleSearchAPIWrapper = Inr demo_wrapper,
       agent_invoke = (\<lambda>p. Inr [(''input'', p), (''output'', ''Day 1: Baga beach.'')]) \<rparr>"

definition demo_request :: UserRequest where
  "demo_request =
     \<lparr> origin = ''Mumbai'', destination = ''Goa'', start_date = ''2025-10-15'',
       duration_days = 3, notes = None \<rparr>"

text \<open>
  A framework that validates one body, the example of the spec, and renders a payload unless
  its text holds a lone surrogate.
\<close>

definition demo_body :: string where
  \<open>demo_body =
     ''{"origin": "Mumbai", "destination": "Goa", "start_date": "2025-10-15", "duration_days": 3}''\<close>


fun payload_text :: "payload \<Rightarrow> string" where
  "payload_text (Plan s) = s"
| "payload_text (Error s) = s"

definition demo_framework :: web_framework where
  "demo_framework =
     \<lparr> validate_body = (\<lambda>body. if body = demo_body then Inr demo_request else Inl ''Field required''),
       render_error = (\<lambda>p. if has_surrogate (payload_text p)
                            then Some (Exc PyUnicodeEncodeError ''surrogates not allowed'')
                            else None) \<rparr>"

text \<open>The same environment with other answers from the flights provider.\<close>

definition demo_env_body :: "json \<Rightarrow> env" where
  "demo_env_body body = demo_env \<lparr> requests_get := (\<lambda>r. Inr (demo_response body)) \<rparr>"

text \<open>
  Two reasoners for the loop: one whose every completion asks for the date tool, and one whose
  completions cannot be decoded. Neither ever gives a final answer.
\<close>

definition demo_reasoner :: reasoner where
  "demo_reasoner =
     \<lparr> complete = (\<lambda>task transcript. ''Action: get_current_date'' @ nl @ ''Action Input: ''),
       decode = (\<lambda>s. Some (Action ''get_current_date'' [])),
       iteration_cap = 3,
       unknown_tool_text = (\<lambda>a. a @ '' is not a valid tool''),
       fault_text = str_exc \<rparr>"

definition garbled_reasoner :: reasoner where
  "garbled_reasoner =
     demo_reasoner \<lparr> complete := (\<lambda>task transcript. ''I am not sure what to do.''),
                     decode := (\<lambda>s. None) \<rparr>"

section \<open>Properties\<close>

declare str_nat.simps [simp del]

lemmas demo_args =
  hotel_arg_def hotel_arg_later_def hotel_arg_no_dates_def flight_arg_def flight_arg_delhi_def
  hotel_arg_surrogate_def hotel_arg_surrogate_date_def hotel_arg_no_check_out_def backslash_def

subsection \<open>The hotel tool\<close>

lemma search_hotels_printed:
  assumes "json_decoder E arg = Inr (JObj kvs)"
    and "map_of kvs ''destination'' = Some d"
    and "map_of kvs ''check_in_date'' = Some ci"
    and "map_of kvs ''check_out_date'' = Some co"
    and "stdout_write E (hotels_progress_line E d ci co) = Inr ()"
  shows "search_hotels E arg a b c =
    ([Print (hotels_progress_line E d ci co)],
     Inr (''Found 3 hotels in '' @ py_str E d @ hotel_offers))"
  using assms
  by (simp add: search_hotels_def search_hotels_try_def json_loads_def py_print_def emit_def)

lemma search_hotels_not_printed:
  assumes "json_decoder E arg = Inr (JObj kvs)"
    and "map_of kvs ''destination'' = Some d"
    and "map_of kvs ''check_in_date'' = Some ci"
    and "map_of kvs ''check_out_date'' = Some co"
    and "stdout_write E (hotels_progress_line E d ci co) = Inl e"
  shows "search_hotels E arg a b c = ([], Inr (hotel_error e))"
  using assms
  by (simp add: search_hotels_def search_hotels_try_def json_loads_def py_print_def)

lemma demo_decoder_hotel_arg:
  "json_decoder demo_env hotel_arg =
     Inr (JObj [(''destination'', JStr ''Goa''), (''check_in_date'', JStr ''2025-10-15''),
                (''check_out_date'', JStr ''2025-10-18'')])"
  by (simp add: demo_env_def demo_decoder_def)

lemma demo_decoder_hotel_arg_later:
  "json_decoder demo_env hotel_arg_later =
     Inr (JObj [(''destination'', JStr ''Goa''), (''check_in_date'', JStr ''2025-12-01''),
                (''check_out_date'', JStr ''2025-12-05'')])"
  by (simp add: demo_env_def demo_decoder_def demo_args)

lemma demo_decoder_hotel_arg_surrogate:
  "json_decoder demo_env hotel_arg_surrogate =
     Inr (JObj [(''destination'', JStr [CHR 0xED, CHR 0xA0, CHR 0x80]),
                (''check_in_date'', JStr ''2025-10-15''),
                (''check_out_date'', JStr ''2025-10-18'')])"
  by (simp add: demo_env_def demo_decoder_def demo_args)

lemma demo_decoder_hotel_arg_surrogate_date:
  "json_decoder demo_env hotel_arg_surrogate_date =
     Inr (JObj [(''destination'', JStr ''Goa''),
                (''check_in_date'', JStr [CHR 0xED, CHR 0xBF, CHR 0xBF]),
                (''check_out_date'', JStr ''2025-10-18'')])"
  by (simp add: demo_env_def demo_decoder_def demo_args)

lemma demo_decoder_hotel_arg_no_check_out:
  "json_decoder demo_env hotel_arg_no_check_out =
     Inr (JObj [(''destination'', JStr ''Goa''), (''check_in_date'', JStr ''2025-10-15'')])"
  by (simp add: demo_env_def demo_decoder_def demo_args)

lemma search_hotels_missing_date:
  assumes "json_decoder E arg = Inr (JObj kvs)"
    and "map_of kvs ''check_in_date'' = None \<or> map_of kvs ''check_out_date'' = None"
  shows "\<exists>e. search_hotels E arg a b c = ([], Inr (hotel_error e))"
proof -
  from assms have "\<exists>e. search_hotels_try E arg a b c = ([], Inl e)"
    by (auto simp: search_hotels_try_def json_loads_def split: option.splits)
  then show ?thesis by (auto simp: search_hotels_def)
qed

lemma demo_stdout: "stdout_write demo_env s = utf8_stdout s"
  by (simp add: demo_env_def)

lemma demo_stdout_hotel_arg:
  "stdout_write demo_env
     (hotels_progress_line demo_env (JStr ''Goa'') (JStr ''2025-10-15'') (JStr ''2025-10-18'')) = Inr ()"
  by (simp add: demo_stdout utf8_stdout_def hotels_progress_line_def)

lemma demo_stdout_hotel_arg_later:
  "stdout_write demo_env
     (hotels_progress_line demo_env (JStr ''Goa'') (JStr ''2025-12-01'') (JStr ''2025-12-05'')) = Inr ()"
  by (simp add: demo_stdout utf8_stdout_def hotels_progress_line_def)

text \<open>
  C4, as the code has it. Whenever the argument decodes to an object that has the keys
  \<^verbatim>\<open>destination\<close>, \<^verbatim>\<open>check_in_date\<close> and \<^verbatim>\<open>check_out_date\<close>, and standard output accepts
  the progress line that is printed first, \<^verbatim>\<open>search_hotels\<close> returns a non-empty string: the
  destination followed by the same three hotels with their names, prices and star ratings.
\<close>

theorem search_hotels_valid_argument:
  assumes "json_decoder E arg = Inr (JObj kvs)"
    and "map_of kvs ''destination'' = Some d"
    and "map_of kvs ''check_in_date'' = Some ci"
    and "map_of kvs ''check_out_date'' = Some co"
    and "stdout_write E (''--- Searching hotels in '' @ py_str E d @ '' from '' @ py_str E ci
                         @ '' to '' @ py_str E co @ '' ---'') = Inr ()"
  shows "\<exists>s. snd (search_hotels E arg a b c) = Inr s \<and> s \<noteq> [] \<and>
     s = ''Found 3 hotels in '' @ py_str E d @ '': 1. The Grand Hotel ('' @ rupee
         @ ''8000/night, 4.5 stars), 2. City Inn ('' @ rupee
         @ ''4500/night, 4.0 stars), 3. Budget Stay ('' @ rupee @ ''2500/night, 3.5 stars).''"
proof -
  have "stdout_write E (hotels_progress_line E d ci co) = Inr ()"
    using assms(5) by (simp add: hotels_progress_line_def)
  from search_hotels_printed [OF assms(1-4) this] show ?thesis
    by (simp add: hotel_offers_def)
qed

theorem search_hotels_valid_argument_witness:
  "json_decoder demo_env hotel_arg =
     Inr (JObj [(''destination'', JStr ''Goa''), (''check_in_date'', JStr ''2025-10-15''),
                (''check_out_date'', JStr ''2025-10-18'')])
   \<and> stdout_write demo_env ''--- Searching hotels in Goa from 2025-10-15 to 2025-10-18 ---'' = Inr ()
   \<and> snd (search_hotels demo_env hotel_arg [] [] []) =
     Inr (''Found 3 hotels in Goa: 1. The Grand Hotel ('' @ rupee
         @ ''8000/night, 4.5 stars), 2. City Inn ('' @ rupee
         @ ''4500/night, 4.0 stars), 3. Budget Stay ('' @ rupee @ ''2500/night, 3.5 stars).'')"
proof -
  have p: "stdout_write demo_env ''--- Searching hotels in Goa from 2025-10-15 to 2025-10-18 ---'' = Inr ()"
    using demo_stdout_hotel_arg by (simp add: hotels_progress_line_def)
  show ?thesis
    using search_hotels_valid_argument [OF demo_decoder_hotel_arg, of "JStr ''Goa''"
        "JStr ''2025-10-15''" "JStr ''2025-10-18''" "[]" "[]" "[]"] p demo_decoder_hotel_arg
    by simp
qed

text \<open>
  C4 as stated fails for the argument
  \<^verbatim>\<open>{"destination": "\ud800", "check_in_date": "2025-10-15", "check_out_date": "2025-10-18"}\<close>:
  it is valid JSON with the three keys, the \<^verbatim>\<open>print\<close> inside the \<^verbatim>\<open>try\<close> block cannot
  encode the destination, and the handler returns the error text.
\<close>

theorem search_hotels_unprintable_destination:
  "search_hotels demo_env hotel_arg_surrogate [] [] [] =
     ([], Inr (''Error processing hotel search: 'utf-8' codec can't encode character '' @ quoted (backslash @ ''ud800'')
          @ '' in position 24: surrogates not allowed. Please ensure the input is a valid JSON with 'destination', 'check_in_date', and 'check_out_date' keys.''))
   \<and> snd (search_hotels demo_env hotel_arg_surrogate [] [] []) \<noteq>
     Inr (''Found 3 hotels in '' @ [CHR 0xED, CHR 0xA0, CHR 0x80] @ hotel_offers)"
proof -
  have "stdout_write demo_env
      (hotels_progress_line demo_env (JStr [CHR 0xED, CHR 0xA0, CHR 0x80]) (JStr ''2025-10-15'')
         (JStr ''2025-10-18'')) =
      Inl (surrogates_not_allowed 24 55296)"
    by (simp add: demo_stdout utf8_stdout_def hotels_progress_line_def,
        rule arg_cong2 [where f = surrogates_not_allowed], simp_all)
  from search_hotels_not_printed [OF demo_decoder_hotel_arg_surrogate _ _ _ this, of "[]" "[]" "[]"]
  show ?thesis
    by (simp add: hotel_error_def surrogates_not_allowed_def hex4_def str_nat.simps digit_char_def
        quoted_def backslash_def)
qed

text \<open>
  C10, as the code has it. Two arguments that decode to objects with the three keys and the
  same value under \<^verbatim>\<open>destination\<close>, and whose progress lines standard output accepts, get
  the same returned string, whatever their dates: the success text, which names the
  destination only. The dates are required all the same: an argument that lacks one gets
  the error text.
\<close>

theorem search_hotels_ignores_dates:
  assumes "json_decoder E arg1 = Inr (JObj kvs1)"
    and "json_decoder E arg2 = Inr (JObj kvs2)"
    and "map_of kvs1 ''destination'' = Some d"
    and "map_of kvs2 ''destination'' = Some d"
    and "map_of kvs1 ''check_in_date'' = Some ci1"
    and "map_of kvs2 ''check_in_date'' = Some ci2"
    and "map_of kvs1 ''check_out_date'' = Some co1"
    and "map_of kvs2 ''check_out_date'' = Some co2"
    and "stdout_write E (''--- Searching hotels in '' @ py_str E d @ '' from '' @ py_str E ci1
                         @ '' to '' @ py_str E co1 @ '' ---'') = Inr ()"
    and "stdout_write E (''--- Searching hotels in '' @ py_str E d @ '' from '' @ py_str E ci2
                         @ '' to '' @ py_str E co2 @ '' ---'') = Inr ()"
  shows "snd (search_hotels E arg1 a1 b1 c1) = snd (search_hotels E arg2 a2 b2 c2)
     \<and> snd (search_hotels E arg1 a1 b1 c1) = Inr (''Found 3 hotels in '' @ py_str E d @ hotel_offers)
     \<and> (\<forall>arg3 kvs3. json_decoder E arg3 = Inr (JObj kvs3)
            \<and> (map_of kvs3 ''check_in_date'' = None \<or> map_of kvs3 ''check_out_date'' = None)
          \<longrightarrow> (\<exists>e. snd (search_hotels E arg3 a3 b3 c3) =
                 Inr (''Error processing hotel search: '' @ str_exc e
                      @ ''. Please ensure the input is a valid JSON with 'destination', 'check_in_date', and 'check_out_date' keys.'')))"
proof -
  have "stdout_write E (hotels_progress_line E d ci1 co1) = Inr ()"
    and "stdout_write E (hotels_progress_line E d ci2 co2) = Inr ()"
    using assms(9,10) by (simp_all add: hotels_progress_line_def)
  then have "snd (search_hotels E arg1 a1 b1 c1) = snd (search_hotels E arg2 a2 b2 c2)
     \<and> snd (search_hotels E arg1 a1 b1 c1) = Inr (''Found 3 hotels in '' @ py_str E d @ hotel_offers)"
    using search_hotels_printed [OF assms(1,3,5,7), of a1 b1 c1]
      search_hotels_printed [OF assms(2,4,6,8), of a2 b2 c2]
    by simp
  moreover have "\<exists>e. snd (search_hotels E arg3 a3 b3 c3) =
                 Inr (''Error processing hotel search: '' @ str_exc e
                      @ ''. Please ensure the input is a valid JSON with 'destination', 'check_in_date', and 'check_out_date' keys.'')"
    if "json_decoder E arg3 = Inr (JObj kvs3)"
      and "map_of kvs3 ''check_in_date'' = None \<or> map_of kvs3 ''check_out_date'' = None"
    for arg3 kvs3
    using search_hotels_missing_date [OF that, of a3 b3 c3]
    by (auto simp: hotel_error_def)
  ultimately show ?thesis by blast
qed

theorem search_hotels_ignores_dates_witness:
  "hotel_arg \<noteq> hotel_arg_later
   \<and> json_decoder demo_env hotel_arg =
     Inr (JObj [(''destination'', JStr ''Goa''), (''check_in_date'', JStr ''2025-10-15''),
                (''check_out_date'', JStr ''2025-10-18'')])
   \<and> json_decoder demo_env hotel_arg_later =
     Inr (JObj [(''destination'', JStr ''Goa''), (''check_in_date'', JStr ''2025-12-01''),
                (''check_out_date'', JStr ''2025-12-05'')])
   \<and> snd (search_hotels demo_env hotel_arg [] [] []) = snd (search_hotels demo_env hotel_arg_later [] [] [])
   \<and> json_decoder demo_env hotel_arg_no_check_out =
     Inr (JObj [(''destination'', JStr ''Goa''), (''check_in_date'', JStr ''2025-10-15'')])
   \<and> (\<exists>e. snd (search_hotels demo_env hotel_arg_no_check_out [] [] []) =
          Inr (''Error processing hotel search: '' @ str_exc e
               @ ''. Please ensure the input is a valid JSON with 'destination', 'check_in_date', and 'check_out_date' keys.''))"
proof -
  have ne: "hotel_arg \<noteq> hotel_arg_later"
    by (simp add: demo_args)
  have p: "stdout_write demo_env (''--- Searching hotels in '' @ py_str demo_env (JStr ''Goa'')
        @ '' from '' @ py_str demo_env (JStr ''2025-10-15'') @ '' to ''
        @ py_str demo_env (JStr ''2025-10-18'') @ '' ---'') = Inr ()"
      "stdout_write demo_env (''--- Searching hotels in '' @ py_str demo_env (JStr ''Goa'')
        @ '' from '' @ py_str demo_env (JStr ''2025-12-01'') @ '' to ''
        @ py_str demo_env (JStr ''2025-12-05'') @ '' ---'') = Inr ()"
    using demo_stdout_hotel_arg demo_stdout_hotel_arg_later
    by (simp_all add: hotels_progress_line_def)
  have k: "map_of [(''destination'', JStr ''Goa''), (''check_in_date'', JStr ''2025-10-15''),
                (''check_out_date'', JStr ''2025-10-18'')] ''destination'' = Some (JStr ''Goa'')"
      "map_of [(''destination'', JStr ''Goa''), (''check_in_date'', JStr ''2025-12-01''),
                (''check_out_date'', JStr ''2025-12-05'')] ''destination'' = Some (JStr ''Goa'')"
      "map_of [(''destination'', JStr ''Goa''), (''check_in_date'', JStr ''2025-10-15''),
                (''check_out_date'', JStr ''2025-10-18'')] ''check_in_date'' = Some (JStr ''2025-10-15'')"
      "map_of [(''destination'', JStr ''Goa''), (''check_in_date'', JStr ''2025-12-01''),
                (''check_out_date'', JStr ''2025-12-05'')] ''check_in_date'' = Some (JStr ''2025-12-01'')"
      "map_of [(''destination'', JStr ''Goa''), (''check_in_date'', JStr ''2025-10-15''),
                (''check_out_date'', JStr ''2025-10-18'')] ''check_out_date'' = Some (JStr ''2025-10-18'')"
      "map_of [(''destination'', JStr ''Goa''), (''check_in_date'', JStr ''2025-12-01''),
                (''check_out_date'', JStr ''2025-12-05'')] ''check_out_date'' = Some (JStr ''2025-12-05'')"
    by simp_all
  note T = search_hotels_ignores_dates [OF demo_decoder_hotel_arg demo_decoder_hotel_arg_later k p,
        of "[]" "[]" "[]" "[]" "[]" "[]" "[]" "[]" "[]"]
  have m: "map_of [(''destination'', JStr ''Goa''), (''check_in_date'', JStr ''2025-10-15'')]
      ''check_in_date'' = None
    \<or> map_of [(''destination'', JStr ''Goa''), (''check_in_date'', JStr ''2025-10-15'')]
      ''check_out_date'' = None"
    by simp
  from T have "snd (search_hotels demo_env hotel_arg [] [] []) =
      snd (search_hotels demo_env hotel_arg_later [] [] [])"
    by blast
  moreover from T demo_decoder_hotel_arg_no_check_out m
  have "\<exists>e. snd (search_hotels demo_env hotel_arg_no_check_out [] [] []) =
          Inr (''Error processing hotel search: '' @ str_exc e
               @ ''. Please ensure the input is a valid JSON with 'destination', 'check_in_date', and 'check_out_date' keys.'')"
    by blast
  ultimately show ?thesis
    using ne demo_decoder_hotel_arg demo_decoder_hotel_arg_later
      demo_decoder_hotel_arg_no_check_out
    by blast
qed

text \<open>
  C10 as stated fails for two valid arguments with the destination \<^verbatim>\<open>Goa\<close>, one with the
  check-in date \<^verbatim>\<open>2025-10-15\<close> and one with \<^verbatim>\<open>\udfff\<close>: the first gets the success text, the
  second the error text, because the \<^verbatim>\<open>print\<close> inside the \<^verbatim>\<open>try\<close> block cannot encode its
  date.
\<close>

theorem search_hotels_unprintable_date:
  "snd (search_hotels demo_env hotel_arg [] [] []) =
     Inr (''Found 3 hotels in Goa'' @ hotel_offers)
   \<and> snd (search_hotels demo_env hotel_arg_surrogate_date [] [] []) =
     Inr (''Error processing hotel search: 'utf-8' codec can't encode character '' @ quoted (backslash @ ''udfff'')
          @ '' in position 33: surrogates not allowed. Please ensure the input is a valid JSON with 'destination', 'check_in_date', and 'check_out_date' keys.'')
   \<and> snd (search_hotels demo_env hotel_arg [] [] []) \<noteq>
     snd (search_hotels demo_env hotel_arg_surrogate_date [] [] [])"
proof -
  have "stdout_write demo_env
      (hotels_progress_line demo_env (JStr ''Goa'') (JStr [CHR 0xED, CHR 0xBF, CHR 0xBF])
         (JStr ''2025-10-18'')) =
      Inl (surrogates_not_allowed 33 57343)"
    by (simp add: demo_stdout utf8_stdout_def hotels_progress_line_def,
        rule arg_cong2 [where f = surrogates_not_allowed], simp_all)
  from search_hotels_not_printed [OF demo_decoder_hotel_arg_surrogate_date _ _ _ this, of "[]" "[]" "[]"]
  have bad: "snd (search_hotels demo_env hotel_arg_surrogate_date [] [] []) =
     Inr (''Error processing hotel search: 'utf-8' codec can't encode character '' @ quoted (backslash @ ''udfff'')
          @ '' in position 33: surrogates not allowed. Please ensure the input is a valid JSON with 'destination', 'check_in_date', and 'check_out_date' keys.'')"
    by (simp add: hotel_error_def surrogates_not_allowed_def hex4_def str_nat.simps digit_char_def
        quoted_def backslash_def)
  from search_hotels_printed [OF demo_decoder_hotel_arg _ _ _ demo_stdout_hotel_arg, of "[]" "[]" "[]"]
  have good: "snd (search_hotels demo_env hotel_arg [] [] []) =
     Inr (''Found 3 hotels in Goa'' @ hotel_offers)"
    by simp
  show ?thesis unfolding good bad by simp
qed

subsection \<open>Exceptions raised while reading a response\<close>

lemma py_get_python_exc: "py_get v k d = Inl e \<Longrightarrow> \<not> is_RequestException e"
  by (cases v) auto

lemma py_getitem_python_exc: "py_getitem v k = Inl e \<Longrightarrow> \<not> is_RequestException e"
  by (cases v) (auto simp: not_subscriptable_def split: option.splits)

lemma py_index0_python_exc: "py_index0 v = Inl e \<Longrightarrow> \<not> is_RequestException e"
  by (cases v) (auto simp: not_subscriptable_def split: list.splits)

lemma py_slice3_python_exc: "py_slice3 v = Inl e \<Longrightarrow> \<not> is_RequestException e"
  by (cases v) (auto simp: not_subscriptable_def)

lemma py_iter_python_exc: "py_iter v = Inl e \<Longrightarrow> \<not> is_RequestException e"
  by (cases v) auto

lemma bind_exc_Inl:
  "bind_exc m f = Inl e \<Longrightarrow> m = Inl e \<or> (\<exists>v. m = Inr v \<and> f v = Inl e)"
  by (cases m) auto

lemma flight_line_python_exc: "flight_line E f = Inl e \<Longrightarrow> \<not> is_RequestException e"
  unfolding flight_line_def
  by (auto dest!: bind_exc_Inl dest: py_get_python_exc py_index0_python_exc)

lemma format_loop_python_exc:
  "format_loop E acc fs = Inl e \<Longrightarrow> \<not> is_RequestException e"
proof (induction fs arbitrary: acc)
  case Nil
  then show ?case by simp
next
  case (Cons f fs)
  then show ?case
    by (auto dest!: bind_exc_Inl dest: flight_line_python_exc)
qed

lemma no_top_flights_python_exc: "no_top_flights data = Inl e \<Longrightarrow> \<not> is_RequestException e"
  unfolding no_top_flights_def
  by (auto dest!: bind_exc_Inl dest: py_get_python_exc py_getitem_python_exc split: if_splits)

lemma read_flights_python_exc:
  "read_flights E oc dc dt data = Inl e \<Longrightarrow> \<not> is_RequestException e"
  unfolding read_flights_def
  by (auto dest!: bind_exc_Inl dest: no_top_flights_python_exc py_getitem_python_exc
      py_slice3_python_exc py_iter_python_exc format_loop_python_exc split: if_splits)

subsection \<open>The flight tool up to the response\<close>

lemma bind_out_silent: "(\<And>v. fst (f v) = []) \<Longrightarrow> fst (bind_out m f) = []"
  by (cases m) simp_all


lemma search_flights_answered:
  assumes "json_decoder E arg = Inr (JObj kvs)"
    and "map_of kvs ''origin'' = Some oc"
    and "map_of kvs ''destination'' = Some dc"
    and "map_of kvs ''departure_date'' = Some dt"
    and "stdout_write E (flights_progress_line E oc dc dt) = Inr ()"
    and "requests_get E (flight_request E dt) = Inr r"
    and "status_code r < 400 \<or> 600 \<le> status_code r"
    and "response_body r = Inr data"
  shows "snd (search_flights E arg a b) =
    (case read_flights E oc dc dt data of Inl e \<Rightarrow> Inr (flight_error e) | Inr s \<Rightarrow> Inr s)"
proof -
  have "raise_for_status r = Inr ()"
    using assms(7) by (auto simp: raise_for_status_def)
  then have "search_flights_try E arg a b =
      ([Print (flights_progress_line E oc dc dt), HttpGet (flight_request E dt)],
       read_flights E oc dc dt data)"
    using assms
    by (simp add: search_flights_try_def json_loads_def py_print_def emit_def response_json_def)
  then show ?thesis
    by (auto simp: search_flights_def split: sum.splits dest: read_flights_python_exc)
qed

subsection \<open>Malformed arguments\<close>






subsection \<open>The outgoing request\<close>

lemma demo_decoder_flight_arg:
  "json_decoder (demo_env_body body) flight_arg =
     Inr (JObj [(''origin'', JStr ''Mumbai''), (''destination'', JStr ''Goa''),
                (''departure_date'', JStr ''2025-10-15'')])"
  by (simp add: demo_env_body_def demo_env_def demo_decoder_def demo_args)


lemma demo_body_stdout: "stdout_write (demo_env_body body) s = utf8_stdout s"
  by (simp add: demo_env_body_def demo_env_def)

lemma demo_stdout_flight_arg:
  "stdout_write (demo_env_body body)
     (flights_progress_line (demo_env_body body) (JStr ''Mumbai'') (JStr ''Goa'')
        (JStr ''2025-10-15'')) = Inr ()"
  by (simp add: demo_body_stdout utf8_stdout_def flights_progress_line_def)

lemma demo_stdout_flight_arg_delhi:
  "stdout_write demo_env
     (flights_progress_line demo_env (JStr ''Delhi'') (JStr ''Pune'') (JStr ''2025-10-15'')) = Inr ()"
  by (simp add: demo_stdout utf8_stdout_def flights_progress_line_def)

lemma demo_env_as_body:
  "demo_env = demo_env_body (JObj [(''data'', JObj [(''topFlights'', JArr demo_flights)])])"
  by (simp add: demo_env_body_def demo_env_def)



subsection \<open>Responses without flights\<close>

lemma no_top_flights_lacking:
  assumes "lacks_top_flights data"
  shows "no_top_flights data = Inr True"
proof (cases "truthy data")
  case False
  then show ?thesis by (simp add: no_top_flights_def)
next
  case True
  with assms obtain kvs where data: "data = JObj kvs"
    by (auto simp: lacks_top_flights_def split: json.splits)
  show ?thesis
  proof (cases "map_of kvs ''data''")
    case None
    then show ?thesis using data True by (simp add: no_top_flights_def)
  next
    case (Some d)
    show ?thesis
    proof (cases "truthy d")
      case False
      then show ?thesis using data Some True by (simp add: no_top_flights_def)
    next
      case d: True
      with assms data Some True obtain dkvs where "d = JObj dkvs"
        and "case map_of dkvs ''topFlights'' of None \<Rightarrow> True | Some tf \<Rightarrow> \<not> truthy tf"
        by (auto simp: lacks_top_flights_def split: json.splits)
      then show ?thesis using data Some True d
        by (simp add: no_top_flights_def split: option.splits)
    qed
  qed
qed

lemma read_flights_lacking:
  assumes "lacks_top_flights data"
  shows "read_flights E oc dc dt data = Inr (no_flights_found E oc dc dt)"
  by (simp add: read_flights_def no_top_flights_lacking [OF assms])

lemma bind_exc_Inr: "bind_exc m f = Inr s \<Longrightarrow> \<exists>v. m = Inr v \<and> f v = Inr s"
  by (cases m) auto

lemma read_flights_nonempty: "read_flights E oc dc dt data = Inr s \<Longrightarrow> s \<noteq> []"
  unfolding read_flights_def
  by (auto dest!: bind_exc_Inr
      simp: no_flights_found_def could_not_parse_def flights_header_def split: if_splits)

lemma bind_out_snd_Inr:
  "snd (bind_out m f) = Inr s \<Longrightarrow> \<exists>v. m = Inr v \<and> snd (f v) = Inr s"
  by (cases m) auto

lemma py_print_snd_Inr: "snd (py_print E l f) = Inr s \<Longrightarrow> snd (f ()) = Inr s"
  by (cases "stdout_write E l") (auto simp: py_print_def emit_def)

lemma search_flights_try_nonempty:
  assumes "snd (search_flights_try E arg a b) = Inr s"
  shows "s \<noteq> []"
proof -
  from assms obtain oc dc dt data where "read_flights E oc dc dt data = Inr s"
    unfolding search_flights_try_def
    by (auto dest!: bind_out_snd_Inr py_print_snd_Inr simp: emit_def)
  then show ?thesis by (rule read_flights_nonempty)
qed

lemma search_flights_returns: "\<exists>s. snd (search_flights E arg a b) = Inr s \<and> s \<noteq> []"
proof (cases "search_flights_try E arg a b")
  case (Pair evs r)
  show ?thesis
  proof (cases r)
    case (Inl e)
    with Pair show ?thesis
      by (simp add: search_flights_def api_request_failed_def flight_error_def)
  next
    case (Inr s)
    with Pair search_flights_try_nonempty [of E arg a b s] show ?thesis
      by (simp add: search_flights_def)
  qed
qed

text \<open>
  C5, as the code has it. \<^verbatim>\<open>search_flights\<close> never raises and never returns an empty
  string. For an argument that decodes to an object with the three keys and whose progress
  line standard output accepts, and a response without error status whose decoded body is
  empty, or is an object that lacks \<^verbatim>\<open>data\<close> or has an empty one, or whose \<^verbatim>\<open>data\<close> is an
  object that lacks \<^verbatim>\<open>topFlights\<close> or has an empty one, it returns the message
  \<^verbatim>\<open>No flights found from <origin> to <destination> on <date>.\<close>
\<close>

theorem search_flights_no_flights_found:
  "(\<exists>s. snd (search_flights E arg a b) = Inr s \<and> s \<noteq> [])
   \<and> (json_decoder E arg = Inr (JObj kvs)
      \<and> map_of kvs ''origin'' = Some oc
      \<and> map_of kvs ''destination'' = Some dc
      \<and> map_of kvs ''departure_date'' = Some dt
      \<and> stdout_write E (''--- Searching REAL flights from '' @ py_str E oc @ '' to ''
                         @ py_str E dc @ '' for '' @ py_str E dt @ '' ---'') = Inr ()
      \<and> requests_get E (flight_request E dt) = Inr r
      \<and> (status_code r < 400 \<or> 600 \<le> status_code r)
      \<and> response_body r = Inr body
      \<and> lacks_top_flights body
      \<longrightarrow> snd (search_flights E arg a b) =
            Inr (''No flights found from '' @ py_str E oc @ '' to '' @ py_str E dc @ '' on ''
                 @ py_str E dt @ ''.''))"
proof (intro conjI impI)
  show "\<exists>s. snd (search_flights E arg a b) = Inr s \<and> s \<noteq> []"
    by (rule search_flights_returns)
next
  assume h: "json_decoder E arg = Inr (JObj kvs)
      \<and> map_of kvs ''origin'' = Some oc
      \<and> map_of kvs ''destination'' = Some dc
      \<and> map_of kvs ''departure_date'' = Some dt
      \<and> stdout_write E (''--- Searching REAL flights from '' @ py_str E oc @ '' to ''
                         @ py_str E dc @ '' for '' @ py_str E dt @ '' ---'') = Inr ()
      \<and> requests_get E (flight_request E dt) = Inr r
      \<and> (status_code r < 400 \<or> 600 \<le> status_code r)
      \<and> response_body r = Inr body
      \<and> lacks_top_flights body"
  then have p: "stdout_write E (flights_progress_line E oc dc dt) = Inr ()"
    by (simp add: flights_progress_line_def)
  from h have "snd (search_flights E arg a b) =
      (case read_flights E oc dc dt body of Inl e \<Rightarrow> Inr (flight_error e) | Inr s \<Rightarrow> Inr s)"
    using search_flights_answered [of E arg kvs oc dc dt r body a b] p by blast
  moreover from h have "read_flights E oc dc dt body = Inr (no_flights_found E oc dc dt)"
    using read_flights_lacking by blast
  ultimately show "snd (search_flights E arg a b) =
            Inr (''No flights found from '' @ py_str E oc @ '' to '' @ py_str E dc @ '' on ''
                 @ py_str E dt @ ''.'')"
    by (simp add: no_flights_found_def)
qed

lemma flight_arg_keys:
  "map_of [(''origin'', JStr ''Mumbai''), (''destination'', JStr ''Goa''),
           (''departure_date'', JStr ''2025-10-15'')] ''origin'' = Some (JStr ''Mumbai'')"
  "map_of [(''origin'', JStr ''Mumbai''), (''destination'', JStr ''Goa''),
           (''departure_date'', JStr ''2025-10-15'')] ''destination'' = Some (JStr ''Goa'')"
  "map_of [(''origin'', JStr ''Mumbai''), (''destination'', JStr ''Goa''),
           (''departure_date'', JStr ''2025-10-15'')] ''departure_date'' = Some (JStr ''2025-10-15'')"
  by simp_all

lemma demo_body_request:
  "requests_get (demo_env_body body) req = Inr (demo_response body)"
  "status_code (demo_response body) < 400 \<or> 600 \<le> status_code (demo_response body)"
  "response_body (demo_response body) = Inr body"
  by (simp_all add: demo_env_body_def demo_response_def)

lemma demo_body_answered:
  "snd (search_flights (demo_env_body body) flight_arg [] []) =
    (case read_flights (demo_env_body body) (JStr ''Mumbai'') (JStr ''Goa'') (JStr ''2025-10-15'') body of
       Inl e \<Rightarrow> Inr (flight_error e) | Inr s \<Rightarrow> Inr s)"
  by (rule search_flights_answered [OF demo_decoder_flight_arg flight_arg_keys
        demo_stdout_flight_arg demo_body_request])

theorem search_flights_no_flights_found_witness:
  "lacks_top_flights (JObj [(''data'', JObj [(''topFlights'', JArr [])])])
   \<and> snd (search_flights (demo_env_body (JObj [(''data'', JObj [(''topFlights'', JArr [])])]))
           flight_arg [] []) =
     Inr ''No flights found from Mumbai to Goa on 2025-10-15.''"
proof -
  let ?body = "JObj [(''data'', JObj [(''topFlights'', JArr [])])]"
  have l: "lacks_top_flights ?body"
    by (simp add: lacks_top_flights_def)
  have p: "stdout_write (demo_env_body ?body) (''--- Searching REAL flights from ''
        @ py_str (demo_env_body ?body) (JStr ''Mumbai'') @ '' to ''
        @ py_str (demo_env_body ?body) (JStr ''Goa'') @ '' for ''
        @ py_str (demo_env_body ?body) (JStr ''2025-10-15'') @ '' ---'') = Inr ()"
    using demo_stdout_flight_arg [of ?body] by (simp add: flights_progress_line_def)
  have "snd (search_flights (demo_env_body ?body) flight_arg [] []) =
      Inr (''No flights found from '' @ py_str (demo_env_body ?body) (JStr ''Mumbai'') @ '' to ''
           @ py_str (demo_env_body ?body) (JStr ''Goa'') @ '' on ''
           @ py_str (demo_env_body ?body) (JStr ''2025-10-15'') @ ''.'')"
    using search_flights_no_flights_found [of "demo_env_body ?body" flight_arg "[]" "[]"
        "[(''origin'', JStr ''Mumbai''), (''destination'', JStr ''Goa''),
          (''departure_date'', JStr ''2025-10-15'')]" "JStr ''Mumbai''" "JStr ''Goa''"
        "JStr ''2025-10-15''" "demo_response ?body" ?body]
      demo_decoder_flight_arg [of ?body] flight_arg_keys p demo_body_request [of ?body] l
    by blast
  then show ?thesis using l by simp
qed

text \<open>
  C5 as stated fails where \<^verbatim>\<open>data\<close> is present, non-empty and not an object: the body
  \<^verbatim>\<open>{"data": "oops"}\<close> has no \<^verbatim>\<open>topFlights\<close>, the guard's call of \<^verbatim>\<open>.get\<close> on the string
  raises, and the second handler returns its own text.
\<close>

theorem search_flights_data_not_object:
  "snd (search_flights (demo_env_body (JObj [(''data'', JStr ''oops'')])) flight_arg [] []) =
     Inr (''An error occurred while searching for flights: 'str' object has no attribute 'get'. Please ensure the input is a valid JSON and the date is in YYYY-MM-DD format.'')
   \<and> snd (search_flights (demo_env_body (JObj [(''data'', JStr ''oops'')])) flight_arg [] []) \<noteq>
     Inr ''No flights found from Mumbai to Goa on 2025-10-15.''"
  unfolding demo_body_answered
  by (simp add: read_flights_def no_top_flights_def flight_error_def quoted_def)

subsection \<open>Responses with flights\<close>

lemma flight_line_well_formed:
  assumes "well_formed_flight f"
  shows "flight_line E f = Inr (render_flight E f)"
proof -
  from assms obtain kvs where f: "f = JObj kvs"
    by (auto simp: well_formed_flight_def split: json.splits)
  from assms f have legs: "map_of kvs ''flights'' = None
      \<or> (\<exists>leg legs. map_of kvs ''flights'' = Some (JArr (JObj leg # legs)))"
    by (auto simp: well_formed_flight_def split: option.splits json.splits list.splits)
  from assms f have dur: "map_of kvs ''duration'' = None
      \<or> (\<exists>dkvs. map_of kvs ''duration'' = Some (JObj dkvs))"
    by (auto simp: well_formed_flight_def split: option.splits json.splits)
  from legs dur show ?thesis
    unfolding f flight_line_def render_flight_def airline_of_def duration_text_of_def field_or_NA_def
    by (auto split: option.splits)
qed

lemma format_loop_well_formed:
  "\<forall>f \<in> set fs. well_formed_flight f \<Longrightarrow>
   format_loop E acc fs = Inr (acc @ map (render_flight E) fs)"
  by (induction fs arbitrary: acc) (simp_all add: flight_line_well_formed)

lemma format_loop_length:
  "format_loop E acc fs = Inr ls \<Longrightarrow> length ls = length acc + length fs"
proof (induction fs arbitrary: acc)
  case Nil
  then show ?case by simp
next
  case (Cons f fs)
  then show ?case by (cases "flight_line E f") auto
qed

lemma read_flights_top:
  assumes "map_of kvs ''data'' = Some (JObj dkvs)"
    and "map_of dkvs ''topFlights'' = Some (JArr fl)"
  shows "read_flights E oc dc dt (JObj kvs) =
    (if fl = [] then Inr (no_flights_found E oc dc dt)
     else bind_exc (format_loop E [] (take 3 fl))
            (\<lambda>ls. Inr (flights_header @ join [CHR 0x0A] ls)))"
proof -
  have ne: "kvs \<noteq> []" "dkvs \<noteq> []" using assms by auto
  show ?thesis
  proof (cases "fl = []")
    case True
    then show ?thesis using assms ne by (simp add: read_flights_def no_top_flights_def)
  next
    case False
    have "ls \<noteq> []" if "format_loop E [] (take 3 fl) = Inr ls" for ls
      using format_loop_length [OF that] False by (cases fl) auto
    then have "bind_exc (format_loop E [] (take 3 fl))
        (\<lambda>ls. if ls = [] then Inr (could_not_parse E oc dc)
              else Inr (flights_header @ join [CHR 0x0A] ls)) =
      bind_exc (format_loop E [] (take 3 fl)) (\<lambda>ls. Inr (flights_header @ join [CHR 0x0A] ls))"
      by (cases "format_loop E [] (take 3 fl)") auto
    then show ?thesis using False assms ne
      by (simp add: read_flights_def no_top_flights_def)
  qed
qed

lemma read_flights_first_three:
  assumes "map_of kvs ''data'' = Some (JObj dkvs)"
    and "map_of dkvs ''topFlights'' = Some (JArr fl)"
  shows "read_flights E oc dc dt (JObj kvs) =
    read_flights E oc dc dt (JObj [(''data'', JObj [(''topFlights'', JArr (take 3 fl))])])"
  by (simp add: read_flights_top [OF assms]
      read_flights_top [of "[(''data'', JObj [(''topFlights'', JArr (take 3 fl))])]"
        "[(''topFlights'', JArr (take 3 fl))]" "take 3 fl"])

text \<open>
  C6, as the code has it. For an argument that decodes to an object with the three keys and
  whose progress line standard output accepts, and a response without error status whose
  body holds a list under \<^verbatim>\<open>data.topFlights\<close>, the result of \<^verbatim>\<open>search_flights\<close> is the result
  for the body cut down to the first three entries of the list, however long the list is.
  An empty list gets the \<^verbatim>\<open>No flights found\<close> message. When the list is not empty and each of
  its first three entries is well formed (an object whose \<^verbatim>\<open>flights\<close>, if present, is a list
  that starts with an object, and whose \<^verbatim>\<open>duration\<close>, if present, is an object), the result is
  the header followed by one line for each of them, with the airline, the price, the text of
  the duration and the stops, and \<^verbatim>\<open>N/A\<close> for each that is absent.
\<close>

theorem search_flights_top_three:
  assumes "json_decoder E arg = Inr (JObj kvs)"
    and "map_of kvs ''origin'' = Some oc"
    and "map_of kvs ''destination'' = Some dc"
    and "map_of kvs ''departure_date'' = Some dt"
    and "stdout_write E (''--- Searching REAL flights from '' @ py_str E oc @ '' to ''
                         @ py_str E dc @ '' for '' @ py_str E dt @ '' ---'') = Inr ()"
    and "requests_get E (flight_request E dt) = Inr r"
    and "status_code r < 400 \<or> 600 \<le> status_code r"
    and "response_body r = Inr (JObj bkvs)"
    and "map_of bkvs ''data'' = Some (JObj dkvs)"
    and "map_of dkvs ''topFlights'' = Some (JArr fl)"
  shows "snd (search_flights E arg a b) =
      (case read_flights E oc dc dt (JObj [(''data'', JObj [(''topFlights'', JArr (take 3 fl))])]) of
         Inl e \<Rightarrow> Inr (flight_error e) | Inr s \<Rightarrow> Inr s)
    \<and> (fl = [] \<longrightarrow>
        snd (search_flights E arg a b) =
          Inr (''No flights found from '' @ py_str E oc @ '' to '' @ py_str E dc @ '' on ''
               @ py_str E dt @ ''.''))
    \<and> (fl \<noteq> [] \<longrightarrow> (\<forall>f \<in> set (take 3 fl). well_formed_flight f) \<longrightarrow>
        snd (search_flights E arg a b) =
          Inr (''Here are the top flight options:'' @ [CHR 0x0A]
               @ join [CHR 0x0A] (map (render_flight E) (take 3 fl))))"
proof -
  have p: "stdout_write E (flights_progress_line E oc dc dt) = Inr ()"
    using assms(5) by (simp add: flights_progress_line_def)
  note answered = search_flights_answered [OF assms(1-4) p assms(6-8), of a b]
  show ?thesis
  proof (intro conjI impI)
    show "snd (search_flights E arg a b) =
        (case read_flights E oc dc dt (JObj [(''data'', JObj [(''topFlights'', JArr (take 3 fl))])]) of
           Inl e \<Rightarrow> Inr (flight_error e) | Inr s \<Rightarrow> Inr s)"
      using answered read_flights_first_three [OF assms(9,10)] by simp
  next
    assume "fl = []"
    then show "snd (search_flights E arg a b) =
          Inr (''No flights found from '' @ py_str E oc @ '' to '' @ py_str E dc @ '' on ''
               @ py_str E dt @ ''.'')"
      using answered by (simp add: read_flights_top [OF assms(9,10)] no_flights_found_def)
  next
    assume "fl \<noteq> []" and "\<forall>f \<in> set (take 3 fl). well_formed_flight f"
    then have "read_flights E oc dc dt (JObj bkvs) =
        Inr (flights_header @ join [CHR 0x0A] (map (render_flight E) (take 3 fl)))"
      by (simp add: read_flights_top [OF assms(9,10)] format_loop_well_formed)
    then show "snd (search_flights E arg a b) =
          Inr (''Here are the top flight options:'' @ [CHR 0x0A]
               @ join [CHR 0x0A] (map (render_flight E) (take 3 fl)))"
      using answered by (simp add: flights_header_def)
  qed
qed

theorem search_flights_top_three_witness:
  "length demo_flights = 4
   \<and> list_all well_formed_flight (take 3 demo_flights)
   \<and> snd (search_flights demo_env flight_arg [] []) =
     Inr (''Here are the top flight options:'' @ [CHR 0x0A]
          @ ''- Airline: IndiGo, Price: $54, Duration: 1 hr 15 min, Stops: 0'' @ [CHR 0x0A]
          @ ''- Airline: Air India, Price: $61, Duration: N/A, Stops: N/A'' @ [CHR 0x0A]
          @ ''- Airline: N/A, Price: $N/A, Duration: N/A, Stops: N/A'')"
proof -
  let ?body = "JObj [(''data'', JObj [(''topFlights'', JArr demo_flights)])]"
  have wf: "\<forall>f \<in> set (take 3 demo_flights). well_formed_flight f"
    by (simp add: demo_flights_def well_formed_flight_def)
  have ne: "demo_flights \<noteq> []" and len: "length demo_flights = 4"
    by (simp_all add: demo_flights_def)
  note E = demo_env_as_body
  have p: "stdout_write (demo_env_body ?body) (''--- Searching REAL flights from ''
        @ py_str (demo_env_body ?body) (JStr ''Mumbai'') @ '' to ''
        @ py_str (demo_env_body ?body) (JStr ''Goa'') @ '' for ''
        @ py_str (demo_env_body ?body) (JStr ''2025-10-15'') @ '' ---'') = Inr ()"
    using demo_stdout_flight_arg [of ?body] by (simp add: flights_progress_line_def)
  have r: "map (render_flight demo_env) (take 3 demo_flights) =
     [''- Airline: IndiGo, Price: $54, Duration: 1 hr 15 min, Stops: 0'',
      ''- Airline: Air India, Price: $61, Duration: N/A, Stops: N/A'',
      ''- Airline: N/A, Price: $N/A, Duration: N/A, Stops: N/A'']"
    by (simp add: demo_flights_def render_flight_def airline_of_def duration_text_of_def
        field_or_NA_def str_int_def str_nat.simps digit_char_def)
  have k: "map_of [(''data'', JObj [(''topFlights'', JArr demo_flights)])] ''data'' =
         Some (JObj [(''topFlights'', JArr demo_flights)])"
      "map_of [(''topFlights'', JArr demo_flights)] ''topFlights'' = Some (JArr demo_flights)"
    by simp_all
  have "snd (search_flights (demo_env_body ?body) flight_arg [] []) =
          Inr (''Here are the top flight options:'' @ [CHR 0x0A]
               @ join [CHR 0x0A] (map (render_flight (demo_env_body ?body)) (take 3 demo_flights)))"
    using search_flights_top_three [OF demo_decoder_flight_arg flight_arg_keys p
        demo_body_request k, of "[]" "[]"] wf ne
    by blast
  then show ?thesis using wf len unfolding E [symmetric] r by (simp add: list_all_iff)
qed

text \<open>
  C6 as stated fails for a list whose entry is not well formed: for
  \<^verbatim>\<open>{"data": {"topFlights": [{"flights": [], "price": 54}]}}\<close> the airline is absent, the
  code indexes the empty \<^verbatim>\<open>flights\<close> list, and the result is the second handler's text, not
  a formatted entry.
\<close>

theorem search_flights_empty_legs:
  "snd (search_flights
          (demo_env_body (JObj [(''data'', JObj [(''topFlights'',
             JArr [JObj [(''flights'', JArr []), (''price'', JInt 54)]])])]))
          flight_arg [] []) =
     Inr (''An error occurred while searching for flights: list index out of range. Please ensure the input is a valid JSON and the date is in YYYY-MM-DD format.'')
   \<and> snd (search_flights
          (demo_env_body (JObj [(''data'', JObj [(''topFlights'',
             JArr [JObj [(''flights'', JArr []), (''price'', JInt 54)]])])]))
          flight_arg [] []) \<noteq>
     Inr (''Here are the top flight options:'' @ [CHR 0x0A]
          @ ''- Airline: N/A, Price: $54, Duration: N/A, Stops: N/A'')"
  unfolding demo_body_answered
  by (simp add: read_flights_def no_top_flights_def flight_line_def flight_error_def)

subsection \<open>The date tool\<close>

















subsection \<open>The request handler\<close>

lemma plan_trip_try_events:
  "fst (plan_trip_try E request) = [AgentInvoke (master_prompt request)]"
proof -
  have "fst (bind_out (agent_invoke E (master_prompt request)) (\<lambda>response.
        bind_out (response_getitem response ''output'') (\<lambda>out.
          ([], Inr (Plan out))))) = []"
    by (intro bind_out_silent) simp
  then show ?thesis by (simp add: plan_trip_try_def emit_def)
qed

lemma plan_trip_try_result:
  "snd (plan_trip_try E request) =
     (case agent_invoke E (master_prompt request) of
        Inl e \<Rightarrow> Inl e
      | Inr response \<Rightarrow>
          (case map_of response ''output'' of
             None \<Rightarrow> Inl (Exc PyKeyError (quoted ''output''))
           | Some out \<Rightarrow> Inr (Plan out)))"
  by (simp add: plan_trip_try_def emit_def response_getitem_def split: sum.splits option.splits)

lemma plan_trip_returns:
  "plan_trip E request =
     ([AgentInvoke (master_prompt request)],
      Inr (case agent_invoke E (master_prompt request) of
             Inl e \<Rightarrow> Error (''An error occurred: '' @ str_exc e)
           | Inr response \<Rightarrow>
               (case map_of response ''output'' of
                  None \<Rightarrow> Error (''An error occurred: '' @ quoted ''output'')
                | Some out \<Rightarrow> Plan out)))"
proof -
  obtain evs r where tr: "plan_trip_try E request = (evs, r)" by (cases "plan_trip_try E request")
  have evs: "evs = [AgentInvoke (master_prompt request)]"
    using plan_trip_try_events [of E request] tr by simp
  have r: "r = (case agent_invoke E (master_prompt request) of
        Inl e \<Rightarrow> Inl e
      | Inr response \<Rightarrow>
          (case map_of response ''output'' of
             None \<Rightarrow> Inl (Exc PyKeyError (quoted ''output''))
           | Some out \<Rightarrow> Inr (Plan out)))"
    using plan_trip_try_result [of E request] tr by simp
  show ?thesis
    unfolding plan_trip_def tr evs r
    by (simp split: sum.splits option.splits)
qed




text \<open>An output of the agent that cannot be encoded, such as a lone surrogate, is answered with status 500.\<close>

lemma plan_trip_unrenderable_plan:
  "snd (post_plan_trip demo_framework
          (demo_env \<lparr> agent_invoke := (\<lambda>p. Inr [(''output'', [CHR 0xED, CHR 0xA0, CHR 0x80])]) \<rparr>)
          demo_body) =
     \<lparr> reply_status = 500, reply_body = Internal_Server_Error \<rparr>"
proof -
  let ?E = "demo_env \<lparr> agent_invoke := (\<lambda>p. Inr [(''output'', [CHR 0xED, CHR 0xA0, CHR 0x80])]) \<rparr>"
  have v: "validate_body demo_framework demo_body = Inr demo_request"
    by (simp add: demo_framework_def)
  have "plan_trip ?E demo_request =
      ([AgentInvoke (master_prompt demo_request)], Inr (Plan [CHR 0xED, CHR 0xA0, CHR 0x80]))"
    by (simp add: plan_trip_returns)
  moreover have "render_error demo_framework (Plan [CHR 0xED, CHR 0xA0, CHR 0x80]) \<noteq> None"
    by (simp add: demo_framework_def has_surrogate_def)
  ultimately show ?thesis using v
    by (auto simp: post_plan_trip_def split: option.splits)
qed

subsection \<open>The registry\<close>

text \<open>
  C1 holds for three of the four tools and fails for \<^verbatim>\<open>web_search\<close>, which has no handler:
  with no \<^verbatim>\<open>GOOGLE_API_KEY\<close> in the environment the search wrapper refuses to be built, and
  invoking the first tool of the registry ends with that exception instead of a text.
\<close>

theorem web_search_raises:
  "tool_name (tools ! 0) = ''web_search''
   \<and> getenv demo_env ''GOOGLE_API_KEY'' = None
   \<and> tool_invoke (tools ! 0) demo_env ''best beaches in Goa'' =
     ([Print ''--- Performing Google Search for: best beaches in Goa ---''],
      Inl (Exc PyValueError ''Did not find google_api_key''))"
  by (simp add: tools_def web_search_def demo_env_def demo_wrapper_def py_print_def emit_def
      utf8_stdout_def)

text \<open>The other three tools return a text whatever happens; \<^verbatim>\<open>web_search\<close> passes on what it gets.\<close>

lemma search_hotels_returns: "\<exists>s. snd (search_hotels E arg a b c) = Inr s"
  by (cases "search_hotels_try E arg a b c") (auto simp: search_hotels_def split: sum.splits)

lemma get_current_date_returns: "\<exists>s. snd (get_current_date E query) = Inr s"
  by (simp add: get_current_date_def)

lemma web_search_result:
  "snd (web_search E query) =
     (case import_GoogleSearchAPIWrapper E of
        Inl e \<Rightarrow> Inl e
      | Inr wrapper \<Rightarrow>
          (case stdout_write E (''--- Performing Google Search for: '' @ query @ '' ---'') of
             Inl e \<Rightarrow> Inl e
           | Inr u \<Rightarrow>
               (case wrapper (getenv E ''GOOGLE_API_KEY'') (getenv E ''GOOGLE_CSE_ID'') of
                  Inl e \<Rightarrow> Inl e
                | Inr search \<Rightarrow> search query)))"
  by (simp add: web_search_def py_print_def emit_def split: sum.splits)

subsection \<open>The reasoning loop\<close>

text \<open>
  What a run of the loop is when no completion is a final answer: the steps it adds are the
  tool calls that the completions asked for, one after the other, each asked for at the
  transcript reached so far; it adds as many as it is allowed and then fails with the
  execution limit, or it stops earlier, at a completion that cannot be decoded, with a parse
  error.
\<close>

lemma run_loop_trace:
  assumes nf: "\<forall>tr s. decode R (complete R task tr) \<noteq> Some (Final_Answer s)"
  shows "\<exists>steps. fst (run_loop n R E reg task tr) = tr @ steps \<and> length steps \<le> n
     \<and> (\<forall>k < length steps. \<exists>a i.
           decode R (complete R task (tr @ take k steps)) = Some (Action a i)
           \<and> steps ! k = \<lparr> action = a, action_input = i, observation = observe R E reg a i \<rparr>)
     \<and> (length steps = n \<longrightarrow> snd (run_loop n R E reg task tr) = Inl Execution_Limit)
     \<and> (length steps \<noteq> n \<longrightarrow>
          snd (run_loop n R E reg task tr) = Inl Parse_Error
          \<and> decode R (complete R task (tr @ steps)) = None)"
proof (induction n arbitrary: tr)
  case 0
  show ?case by (rule exI [of _ "[]"]) simp
next
  case (Suc n)
  show ?case
  proof (cases "decode R (complete R task tr)")
    case None
    show ?thesis by (rule exI [of _ "[]"]) (simp add: None)
  next
    case (Some sh)
    with nf obtain a i where sh: "sh = Action a i" by (cases sh) auto
    let ?st = "\<lparr> action = a, action_input = i, observation = observe R E reg a i \<rparr>"
    have unfold: "run_loop (Suc n) R E reg task tr = run_loop n R E reg task (tr @ [?st])"
      using Some sh by simp
    from Suc.IH [of "tr @ [?st]"] obtain steps where
      f: "fst (run_loop n R E reg task (tr @ [?st])) = (tr @ [?st]) @ steps"
      and l: "length steps \<le> n"
      and a: "\<forall>k < length steps. \<exists>a i.
           decode R (complete R task ((tr @ [?st]) @ take k steps)) = Some (Action a i)
           \<and> steps ! k = \<lparr> action = a, action_input = i, observation = observe R E reg a i \<rparr>"
      and e: "length steps = n \<longrightarrow> snd (run_loop n R E reg task (tr @ [?st])) = Inl Execution_Limit"
      and p: "length steps \<noteq> n \<longrightarrow>
          snd (run_loop n R E reg task (tr @ [?st])) = Inl Parse_Error
          \<and> decode R (complete R task ((tr @ [?st]) @ steps)) = None"
      by blast
    have all: "\<exists>a i. decode R (complete R task (tr @ take k (?st # steps))) = Some (Action a i)
           \<and> (?st # steps) ! k = \<lparr> action = a, action_input = i, observation = observe R E reg a i \<rparr>"
      if "k < length (?st # steps)" for k
    proof (cases k)
      case 0
      then show ?thesis using Some sh by simp
    next
      case (Suc j)
      with that have "j < length steps" by simp
      with a show ?thesis using Suc by simp
    qed
    show ?thesis
    proof (rule exI [of _ "?st # steps"], intro conjI)
      show "fst (run_loop (Suc n) R E reg task tr) = tr @ ?st # steps"
        using f unfold by simp
      show "length (?st # steps) \<le> Suc n" using l by simp
      show "\<forall>k < length (?st # steps). \<exists>a i.
           decode R (complete R task (tr @ take k (?st # steps))) = Some (Action a i)
           \<and> (?st # steps) ! k = \<lparr> action = a, action_input = i, observation = observe R E reg a i \<rparr>"
        using all by blast
      show "length (?st # steps) = Suc n \<longrightarrow>
          snd (run_loop (Suc n) R E reg task tr) = Inl Execution_Limit"
        using e unfold by simp
      show "length (?st # steps) \<noteq> Suc n \<longrightarrow>
          snd (run_loop (Suc n) R E reg task tr) = Inl Parse_Error
          \<and> decode R (complete R task (tr @ ?st # steps)) = None"
        using p unfold by simp
    qed
  qed
qed

text \<open>
  C9, as the contract of the loop has it. When no completion decodes to a final answer, the
  loop ends in a failure after at most as many tool invocations as the iteration cap allows.
  Every step of the returned trace is the tool call asked for by the completion at the steps
  before it, carried out on the registry. The failure is the execution limit exactly when
  the cap's number of tool calls has been made (as it is when every completion decodes to a
  tool call); otherwise it is a parse error, and the completion at the returned trace, the
  first that is not a tool call, cannot be decoded.
\<close>

theorem reasoning_loop_stops:
  assumes "\<forall>tr s. decode R (complete R task tr) \<noteq> Some (Final_Answer s)"
  shows "length (fst (run R E task)) \<le> iteration_cap R
     \<and> (\<forall>k < length (fst (run R E task)). \<exists>a i.
           decode R (complete R task (take k (fst (run R E task)))) = Some (Action a i)
           \<and> fst (run R E task) ! k =
               \<lparr> action = a, action_input = i, observation = observe R E tools a i \<rparr>)
     \<and> (length (fst (run R E task)) = iteration_cap R \<longrightarrow>
          snd (run R E task) = Inl Execution_Limit)
     \<and> (length (fst (run R E task)) \<noteq> iteration_cap R \<longrightarrow>
          snd (run R E task) = Inl Parse_Error
          \<and> decode R (complete R task (fst (run R E task))) = None)
     \<and> ((\<forall>tr. decode R (complete R task tr) \<noteq> None) \<longrightarrow>
          snd (run R E task) = Inl Execution_Limit
          \<and> length (fst (run R E task)) = iteration_cap R)"
proof -
  from run_loop_trace [OF assms, of "iteration_cap R" E tools "[]"] obtain steps where
    f: "fst (run R E task) = steps"
    and l: "length steps \<le> iteration_cap R"
    and a: "\<forall>k < length steps. \<exists>a i.
           decode R (complete R task (take k steps)) = Some (Action a i)
           \<and> steps ! k = \<lparr> action = a, action_input = i, observation = observe R E tools a i \<rparr>"
    and e: "length steps = iteration_cap R \<longrightarrow> snd (run R E task) = Inl Execution_Limit"
    and p: "length steps \<noteq> iteration_cap R \<longrightarrow>
          snd (run R E task) = Inl Parse_Error \<and> decode R (complete R task steps) = None"
    unfolding run_def by auto
  from e p have "(\<forall>tr. decode R (complete R task tr) \<noteq> None) \<longrightarrow>
          snd (run R E task) = Inl Execution_Limit \<and> length steps = iteration_cap R"
    by blast
  with l a e p show ?thesis unfolding f by blast
qed

theorem reasoning_loop_stops_witness:
  "(\<forall>tr s. decode demo_reasoner (complete demo_reasoner ''Plan a trip to Goa'' tr) \<noteq> Some (Final_Answer s))
   \<and> (\<forall>tr. decode demo_reasoner (complete demo_reasoner ''Plan a trip to Goa'' tr) \<noteq> None)
   \<and> snd (run demo_reasoner demo_env ''Plan a trip to Goa'') = Inl Execution_Limit
   \<and> length (fst (run demo_reasoner demo_env ''Plan a trip to Goa'')) = 3"
proof -
  have h: "\<forall>tr s. decode demo_reasoner (complete demo_reasoner ''Plan a trip to Goa'' tr) \<noteq> Some (Final_Answer s)"
    "\<forall>tr. decode demo_reasoner (complete demo_reasoner ''Plan a trip to Goa'' tr) \<noteq> None"
    by (simp_all add: demo_reasoner_def)
  have c: "iteration_cap demo_reasoner = 3" by (simp add: demo_reasoner_def)
  from reasoning_loop_stops [OF h(1), of demo_env] h(2)
  have "snd (run demo_reasoner demo_env ''Plan a trip to Goa'') = Inl Execution_Limit
      \<and> length (fst (run demo_reasoner demo_env ''Plan a trip to Goa'')) = iteration_cap demo_reasoner"
    by blast
  with h c show ?thesis by simp
qed

text \<open>
  C9 as stated fails for a model whose completions cannot be decoded: it never gives a final
  answer, and the loop ends at once with a parse error, not with the execution-limit failure.
\<close>

theorem reasoning_loop_parse_error:
  "run garbled_reasoner demo_env ''Plan a trip to Goa'' = ([], Inl Parse_Error)
   \<and> snd (run garbled_reasoner demo_env ''Plan a trip to Goa'') \<noteq> Inl Execution_Limit"
  by (simp add: run_def garbled_reasoner_def demo_reasoner_def numeral_3_eq_3)

end
